(* ===== verification/Prelude.thy ===== *)
theory Prelude
  imports Complex_Main
begin

text \<open>
  Shared vocabulary of the Flappy Bird development: the Python runtime errors the two games
  can raise, Python's dynamically typed numbers where their type matters, the truncating
  conversions \<open>int(x)\<close> of Python and the integer coordinates of pygame's \<open>Rect\<close>, the
  random draws \<open>random.randrange\<close> and \<open>random.randint\<close> (the random source is a
  parameter, a seed, so that every possible draw is one input of the model), and the
  list operations of \<open>list.pop(0)\<close> and \<open>xs[0]\<close> with their \<open>IndexError\<close>.
\<close>

named_theorems game_consts "numeric constants of the two games, unfolded to numerals"

section \<open>Python errors and values\<close>

datatype py_error = IndexError | ValueError | TypeError | NameError

text \<open>
  A Python number whose int/float type is observable: \<open>range(x)\<close> refuses a float even
  when its value is integral.
\<close>

datatype py_num = PInt int | PFloat real

primrec num_val :: "py_num \<Rightarrow> real" where
  "num_val (PInt n) = of_int n"
| "num_val (PFloat x) = x"

fun py_add :: "py_num \<Rightarrow> py_num \<Rightarrow> py_num" where
  "py_add (PInt a) (PInt b) = PInt (a + b)"
| "py_add a b = PFloat (num_val a + num_val b)"

fun py_sub :: "py_num \<Rightarrow> py_num \<Rightarrow> py_num" where
  "py_sub (PInt a) (PInt b) = PInt (a - b)"
| "py_sub a b = PFloat (num_val a - num_val b)"

text \<open>\<open>min(a, b)\<close>: the first argument unless the second is strictly smaller.\<close>

definition py_min :: "py_num \<Rightarrow> py_num \<Rightarrow> py_num" where
  "py_min a b = (if num_val b < num_val a then b else a)"

primrec is_py_int :: "py_num \<Rightarrow> bool" where
  "is_py_int (PInt n) = True"
| "is_py_int (PFloat x) = False"

text \<open>
  \<open>int(x)\<close> of a float and the C cast pygame applies when a float is stored into a
  \<open>Rect\<close> coordinate: both truncate towards zero.
\<close>

definition py_int :: "real \<Rightarrow> int" where
  "py_int x = (if 0 \<le> x then \<lfloor>x\<rfloor> else \<lceil>x\<rceil>)"

text \<open>
  \<open>random.randrange(start, stop)\<close>: \<open>ValueError\<close> on an empty range, otherwise a value
  of the range. The draw is the seed reduced into the range, so that every value of the
  range is the result of some seed.
\<close>

definition py_randrange :: "int \<Rightarrow> int \<Rightarrow> int \<Rightarrow> py_error + int" where
  "py_randrange start stop seed =
     (if stop \<le> start then Inl ValueError else Inr (start + seed mod (stop - start)))"

definition py_randint :: "int \<Rightarrow> int \<Rightarrow> int \<Rightarrow> py_error + int" where
  "py_randint a b seed = py_randrange a (b + 1) seed"

text \<open>\<open>xs[0]\<close> and \<open>xs.pop(0)\<close> of a Python list.\<close>

definition py_first :: "'a list \<Rightarrow> py_error + 'a" where
  "py_first xs = (case xs of [] \<Rightarrow> Inl IndexError | x # _ \<Rightarrow> Inr x)"

definition py_pop0 :: "'a list \<Rightarrow> py_error + 'a list" where
  "py_pop0 xs = (case xs of [] \<Rightarrow> Inl IndexError | _ # ys \<Rightarrow> Inr ys)"

text \<open>
  Python's \<open>str\<close> on a non-negative int (decimal, no leading zeros), \<open>int\<close> on a
  one-character string, the all-or-nothing \<open>map\<close> of a list comprehension whose element
  expression may raise, and indexing of a list or tuple (negative indices count from the end).
\<close>

definition digit_char :: "nat \<Rightarrow> char" where
  "digit_char d = char_of (48 + d)"

fun py_str_nat :: "nat \<Rightarrow> string" where
  "py_str_nat n = (if n < 10 then [digit_char n] else py_str_nat (n div 10) @ [digit_char (n mod 10)])"

definition py_int_char :: "char \<Rightarrow> py_error + int" where
  "py_int_char c = (if (48::nat) \<le> of_char c \<and> of_char c \<le> (57::nat) then Inr (int (of_char c) - 48) else Inl ValueError)"

fun py_map :: "('a \<Rightarrow> py_error + 'b) \<Rightarrow> 'a list \<Rightarrow> py_error + 'b list" where
  "py_map f [] = Inr []"
| "py_map f (x # xs) = (case f x of Inl e \<Rightarrow> Inl e | Inr y \<Rightarrow> (case py_map f xs of Inl e \<Rightarrow> Inl e | Inr ys \<Rightarrow> Inr (y # ys)))"

definition py_index :: "'a list \<Rightarrow> int \<Rightarrow> py_error + 'a" where
  "py_index xs i =
     (if 0 \<le> i \<and> i < int (length xs) then Inr (xs ! nat i)
      else if - int (length xs) \<le> i \<and> i < 0 then Inr (xs ! nat (int (length xs) + i))
      else Inl IndexError)"

section \<open>Lemmas shared by the components\<close>

lemma py_int_of_int [simp]: "py_int (of_int n) = n"
  by (simp add: py_int_def)

lemma py_int_nonneg: "0 \<le> x \<Longrightarrow> of_int (py_int x) \<le> x \<and> x < of_int (py_int x) + 1"
  by (simp add: py_int_def)

lemma py_int_neg: "x < 0 \<Longrightarrow> x \<le> of_int (py_int x) \<and> of_int (py_int x) < x + 1"
  by (simp add: py_int_def; linarith)

lemma py_int_abs_le: "\<bar>of_int (py_int x)\<bar> \<le> \<bar>x\<bar>"
proof (cases "0 \<le> x")
  case True
  then show ?thesis using py_int_nonneg [of x] by (simp add: py_int_def)
next
  case False
  then show ?thesis using py_int_neg [of x] by (simp add: py_int_def)
qed

lemma py_int_mono:
  assumes "x \<le> y"
  shows "py_int x \<le> py_int y"
proof (cases "0 \<le> x")
  case True
  with assms show ?thesis by (simp add: py_int_def floor_mono)
next
  case False
  have "\<lceil>x\<rceil> \<le> \<lceil>y\<rceil>" using assms by (rule ceiling_mono)
  moreover have "\<lceil>x\<rceil> \<le> \<lfloor>y\<rfloor>" if "0 \<le> y"
  proof -
    have "\<lceil>x\<rceil> \<le> 0" using False by simp
    moreover have "0 \<le> \<lfloor>y\<rfloor>" using that by simp
    ultimately show ?thesis by linarith
  qed
  ultimately show ?thesis using False by (simp add: py_int_def)
qed

lemma num_val_py_add [simp]: "num_val (py_add a b) = num_val a + num_val b"
  by (cases a; cases b) simp_all

lemma num_val_py_sub [simp]: "num_val (py_sub a b) = num_val a - num_val b"
  by (cases a; cases b) simp_all

lemma num_val_py_min [simp]: "num_val (py_min a b) = min (num_val a) (num_val b)"
  by (simp add: py_min_def)

lemma is_py_int_py_add [simp]: "is_py_int (py_add a b) \<longleftrightarrow> is_py_int a \<and> is_py_int b"
  by (cases a; cases b) simp_all

lemma is_py_int_py_sub [simp]: "is_py_int (py_sub a b) \<longleftrightarrow> is_py_int a \<and> is_py_int b"
  by (cases a; cases b) simp_all

lemma py_randrange_Inr: "py_randrange a b s = Inr r \<Longrightarrow> a \<le> r \<and> r < b"
proof -
  assume r: "py_randrange a b s = Inr r"
  then have "a < b" and "r = a + s mod (b - a)"
    by (auto simp: py_randrange_def split: if_splits)
  moreover have "0 \<le> s mod (b - a)" and "s mod (b - a) < b - a"
    using \<open>a < b\<close> by simp_all
  ultimately show ?thesis by simp
qed

lemma py_randrange_Inl: "py_randrange a b s = Inl e \<longleftrightarrow> b \<le> a \<and> e = ValueError"
  by (auto simp: py_randrange_def)

lemma py_randrange_every_value: "a \<le> r \<Longrightarrow> r < b \<Longrightarrow> py_randrange a b (r - a) = Inr r"
  by (simp add: py_randrange_def)

lemma py_randint_Inr: "py_randint a b s = Inr r \<Longrightarrow> a \<le> r \<and> r \<le> b"
  by (auto simp: py_randint_def dest: py_randrange_Inr)

lemma py_randint_ok: "a \<le> b \<Longrightarrow> \<exists>r. py_randint a b s = Inr r"
  by (simp add: py_randint_def py_randrange_def)

lemma py_first_Cons [simp]: "py_first (x # xs) = Inr x"
  and py_first_Nil [simp]: "py_first [] = Inl IndexError"
  by (simp_all add: py_first_def)

lemma py_pop0_Cons [simp]: "py_pop0 (x # xs) = Inr xs"
  and py_pop0_Nil [simp]: "py_pop0 [] = Inl IndexError"
  by (simp_all add: py_pop0_def)

lemma count_list_replicate [simp]: "count_list (replicate n a) b = (if a = b then n else 0)"
  by (induction n) auto

lemma py_map_append:
  "py_map f (xs @ ys) = (case py_map f xs of Inl e \<Rightarrow> Inl e
     | Inr as \<Rightarrow> (case py_map f ys of Inl e \<Rightarrow> Inl e | Inr bs \<Rightarrow> Inr (as @ bs)))"
  by (induction xs) (auto split: sum.splits)

lemma py_int_char_digit [simp]: "d < 10 \<Longrightarrow> py_int_char (digit_char d) = Inr (int d)"
  by (simp add: py_int_char_def digit_char_def of_char_of)

lemma py_str_nat_digits:
  "\<exists>ds. py_map py_int_char (py_str_nat n) = Inr ds \<and> list_all (\<lambda>d. 0 \<le> d \<and> d < 10) ds
     \<and> foldl (\<lambda>a d. 10 * a + d) 0 ds = int n \<and> ds \<noteq> [] \<and> (0 < hd ds \<or> ds = [0])"
proof (induction n rule: py_str_nat.induct)
  case (1 n)
  show ?case
  proof (cases "n < 10")
    case True
    then show ?thesis by (subst py_str_nat.simps) auto
  next
    case False
    then obtain ds where ds: "py_map py_int_char (py_str_nat (n div 10)) = Inr ds"
      and b: "list_all (\<lambda>d. 0 \<le> d \<and> d < 10) ds" and v: "foldl (\<lambda>a d. 10 * a + d) 0 ds = int (n div 10)"
      and h: "0 < hd ds \<or> ds = [0]"
      using "1" by blast
    have "ds \<noteq> [0]" using v False by auto
    then have "0 < hd ds" using h by simp
    moreover have "ds \<noteq> []" using v False by auto
    moreover have "int n = 10 * int (n div 10) + int (n mod 10)"
      using div_mult_mod_eq [of n 10] by (metis of_nat_add of_nat_mult of_nat_numeral mult.commute)
    ultimately show ?thesis
      using False ds b v by (subst py_str_nat.simps) (auto simp: py_map_append)
  qed
qed

lemma py_index_nonneg [simp]:
  "0 \<le> i \<Longrightarrow> py_index xs i = (if i < int (length xs) then Inr (xs ! nat i) else Inl IndexError)"
  by (simp add: py_index_def)

end
