(* ===== verification/Game_Config.thy ===== *)
theory Game_Config
  imports Prelude
begin

text \<open>
  The fixed parameters of the two games of the repository and the parts of pygame they rely
  on. \<open>src/main.py\<close> (the sprite game) keeps its constants at module level and builds every
  entity as a \<open>pygame.sprite.Sprite\<close> with a \<open>Rect\<close> and a pixel \<open>Mask\<close>;
  \<open>src/unnamed/part_000\<close> (the dictionary game, \<open>flappy bird.py\<close>) keeps a few module
  constants, reads the extents of its images from \<open>GAME_SPRITES\<close>, and keeps the physics
  constants as locals of \<open>mainGame\<close>. Image files are not modelled: the sizes and the
  opaque pixels of the loaded images are parameters (records \<open>surface\<close> and
  \<open>sprite_sizes\<close>).
\<close>

section \<open>The sprite game, \<open>src/main.py\<close>\<close>

definition SCREEN_WIDTH :: int where [game_consts]: "SCREEN_WIDTH = 400"
definition SCREEN_HEIGHT :: int where [game_consts]: "SCREEN_HEIGHT = 600"
definition BIRD_SPEED :: int where [game_consts]: "BIRD_SPEED = 20"
definition GRAVITY :: real where [game_consts]: "GRAVITY = 5 / 2"
definition GAME_SPEED :: int where [game_consts]: "GAME_SPEED = 15"
definition GROUND_WIDTH :: int where [game_consts]: "GROUND_WIDTH = 2 * SCREEN_WIDTH"
definition GROUND_HEIGHT :: int where [game_consts]: "GROUND_HEIGHT = 100"
definition PIPE_WIDTH :: int where [game_consts]: "PIPE_WIDTH = 80"
definition PIPE_HEIGHT :: int where [game_consts]: "PIPE_HEIGHT = 500"
definition PIPE_GAP :: int where [game_consts]: "PIPE_GAP = 150"

text \<open>
  A pygame \<open>Mask\<close> as the list of its set bits, each an offset from the sprite's top-left
  corner; a loaded \<open>Surface\<close> as its size and its opaque pixels (what
  \<open>pygame.mask.from_surface\<close> turns into a mask).
\<close>

type_synonym mask = "(int \<times> int) list"

record surface =
  surf_w :: int
  surf_h :: int
  surf_opaque :: mask

text \<open>
  The common part of the game's sprites: the integer \<open>Rect\<close> and the mask.
  \<open>Bird\<close>, \<open>Pipe\<close> and \<open>Ground\<close> extend it.
\<close>

record sprite =
  rect_x :: int
  rect_y :: int
  rect_w :: int
  rect_h :: int
  mask :: mask

text \<open>
  The images \<open>main.py\<close> loads: the bird's first animation frame (its mask and rectangle
  are taken from it), the pipe scaled to \<open>PIPE_WIDTH\<close> by \<open>PIPE_HEIGHT\<close> and its
  vertical flip, and the ground scaled to \<open>GROUND_WIDTH\<close> by \<open>GROUND_HEIGHT\<close>.
\<close>

record main_images =
  bird_upflap :: surface
  pipe_green :: surface
  pipe_green_flipped :: surface
  base_image :: surface

section \<open>Input and audio\<close>

text \<open>
  The events \<open>pygame.event.get()\<close> returns that the games distinguish, and the sound cues
  they play (\<open>wing.wav\<close>, \<open>hit.wav\<close>, \<open>point.wav\<close>).
\<close>

datatype key = K_SPACE | K_UP | K_ESCAPE | K_OTHER

datatype event = QUIT | KEYDOWN key | OTHER_EVENT

datatype cue = Wing | Hit | Point

definition flap_key :: "key \<Rightarrow> bool" where
  "flap_key k \<longleftrightarrow> k = K_SPACE \<or> k = K_UP"

text \<open>The events that flap, and those on which the dictionary game exits.\<close>

fun is_flap_event :: "event \<Rightarrow> bool" where
  "is_flap_event (KEYDOWN k) = flap_key k"
| "is_flap_event _ = False"

fun is_exit_event :: "event \<Rightarrow> bool" where
  "is_exit_event QUIT = True"
| "is_exit_event (KEYDOWN k) = (k = K_ESCAPE)"
| "is_exit_event OTHER_EVENT = False"

section \<open>The dictionary game, \<open>src/unnamed/part_000\<close>\<close>

definition SCREENWIDTH :: int where [game_consts]: "SCREENWIDTH = 578"
definition SCREENHEIGHT :: int where [game_consts]: "SCREENHEIGHT = 511"

text \<open>
  \<open>GROUNDY = SCREENHEIGHT * 0.8\<close>, a float; the model takes its exact value 408.8 (the
  double nearest to it differs by less than \<open>10\<^sup>-\<^sup>1\<^sup>3\<close>, which no comparison of the
  game with the image sizes below can observe).
\<close>

definition GROUNDY :: real where [game_consts]: "GROUNDY = of_int SCREENHEIGHT * (8 / 10)"

text \<open>The locals of \<open>mainGame\<close> that never change.\<close>

definition pipeVelX :: int where [game_consts]: "pipeVelX = -3"
definition playerMaxVelY :: int where [game_consts]: "playerMaxVelY = 10"
definition playerAccY :: int where [game_consts]: "playerAccY = 1"
definition playerFlapAccv :: int where [game_consts]: "playerFlapAccv = -10"

text \<open>
  The extents of the images in \<open>GAME_SPRITES\<close> the game logic reads: the player, the
  pipe (both pipe images have the size of \<open>PIPE\<close>, one rotated by 180 degrees), the
  base and the background.
\<close>

record sprite_sizes =
  player_w :: int
  player_h :: int
  pipe_w :: int
  pipe_h :: int
  base_h :: int
  background_w :: int

end
