(* ===== verification/Physics.thy ===== *)
theory Physics
  imports Game_Config
begin

text \<open>
  Entity physics of both games. The sprite game's \<open>Bird\<close> class (\<open>src/main.py\<close>,
  lines 25--59) keeps a float speed and an integer \<open>Rect\<close>; \<open>update\<close> adds
  \<open>GRAVITY\<close> to the speed and the speed to \<open>rect.y\<close>, which pygame truncates to an
  integer. The dictionary game keeps the player in locals of \<open>mainGame\<close>
  (\<open>src/unnamed/part_000\<close>, lines 40--41, 55--59, 69--73 and 85--90): an integer velocity
  capped at \<open>playerMaxVelY\<close>, a flap that is refused above the screen, and a fall clamped
  at the ground line, where the player's position turns from a Python int into a float.
\<close>

section \<open>The bird of the sprite game\<close>

record bird = sprite +
  speed :: real
  current_image :: nat

definition bird_init :: "main_images \<Rightarrow> bird" where
  "bird_init imgs =
     (let img = bird_upflap imgs in
      \<lparr>rect_x = py_int (of_int SCREEN_WIDTH / 6), rect_y = py_int (of_int SCREEN_HEIGHT / 2),
       rect_w = surf_w img, rect_h = surf_h img, mask = surf_opaque img,
       speed = of_int BIRD_SPEED, current_image = 0\<rparr>)"

definition bird_update :: "bird \<Rightarrow> bird" where
  "bird_update b =
     (let s = speed b + GRAVITY in
      b\<lparr>current_image := (current_image b + 1) mod 3, speed := s,
        rect_y := py_int (of_int (rect_y b) + s)\<rparr>)"

definition bird_bump :: "bird \<Rightarrow> bird" where
  "bird_bump b = b\<lparr>speed := - of_int BIRD_SPEED\<rparr>"

definition bird_begin :: "bird \<Rightarrow> bird" where
  "bird_begin b = b\<lparr>current_image := (current_image b + 1) mod 3\<rparr>"

section \<open>The player of the dictionary game\<close>

record player =
  playery :: py_num
  playerVelY :: int
  playerFlapped :: bool

definition player_init :: player where
  "player_init = \<lparr>playery = PInt (py_int (of_int SCREENWIDTH / 2)), playerVelY = -20,
                   playerFlapped = False\<rparr>"

text \<open>A flap key is accepted only while the player is below the top of the screen.\<close>

definition flap_accepted :: "player \<Rightarrow> bool" where
  "flap_accepted p \<longleftrightarrow> 0 < num_val (playery p)"

definition player_flap :: "player \<Rightarrow> player" where
  "player_flap p =
     (if flap_accepted p then p\<lparr>playerVelY := playerFlapAccv, playerFlapped := True\<rparr> else p)"

text \<open>
  Lines 85--90: gravity unless the player flapped in this frame, the flag reset, and the
  move clamped so that the player's bottom stops at \<open>GROUNDY\<close>.
\<close>

definition player_fall :: "sprite_sizes \<Rightarrow> player \<Rightarrow> player" where
  "player_fall sz p =
     (let v = (if playerVelY p < playerMaxVelY \<and> \<not> playerFlapped p
               then playerVelY p + playerAccY else playerVelY p);
          y = playery p
      in p\<lparr>playerVelY := v, playerFlapped := False,
           playery := py_add y (py_min (PInt v) (py_sub (py_sub (PFloat GROUNDY) y)
                                                        (PInt (player_h sz))))\<rparr>)"

section \<open>Properties of the bird\<close>

lemma bird_update_fields [simp]:
  "speed (bird_update b) = speed b + 5 / 2"
  "rect_y (bird_update b) = py_int (of_int (rect_y b) + speed b + 5 / 2)"
  "rect_x (bird_update b) = rect_x b"
  "mask (bird_update b) = mask b"
  "current_image (bird_update b) = (current_image b + 1) mod 3"
  by (simp_all add: bird_update_def Let_def GRAVITY_def add.assoc)

lemma bird_bump_fields [simp]:
  "speed (bird_bump b) = -20"
  "rect_y (bird_bump b) = rect_y b"
  "rect_x (bird_bump b) = rect_x b"
  "mask (bird_bump b) = mask b"
  by (simp_all add: bird_bump_def BIRD_SPEED_def)

lemma bird_begin_fields [simp]:
  "speed (bird_begin b) = speed b"
  "rect_y (bird_begin b) = rect_y b"
  "rect_x (bird_begin b) = rect_x b"
  "mask (bird_begin b) = mask b"
  by (simp_all add: bird_begin_def)

lemma bird_init_fields [simp]:
  "rect_x (bird_init imgs) = 66"
  "rect_y (bird_init imgs) = 300"
  "speed (bird_init imgs) = 20"
  "mask (bird_init imgs) = surf_opaque (bird_upflap imgs)"
  "current_image (bird_init imgs) = 0"
  by (simp_all add: bird_init_def Let_def game_consts py_int_def)

text \<open>
  Frame-locked gravity: without a bump, the speed after \<open>n\<close> frames is the speed before
  plus \<open>n\<close> times \<open>GRAVITY\<close>, whatever the frame rate.
\<close>

lemma bird_update_iter_speed:
  "speed ((bird_update ^^ n) b) = speed b + of_nat n * (5 / 2)"
  by (induction n) (simp_all add: algebra_simps)

text \<open>
  Each frame the integer \<open>rect.y\<close> receives the truncation of the exact sum; going down
  (a non-negative target) it lies at most one pixel above the exact position.
\<close>

lemma bird_update_rect_y_bounds:
  assumes "0 \<le> of_int (rect_y b) + speed b + 5 / 2"
  shows "of_int (rect_y (bird_update b)) \<le> of_int (rect_y b) + speed b + 5 / 2
       \<and> of_int (rect_y b) + speed b + 5 / 2 < of_int (rect_y (bird_update b)) + 1"
  using py_int_nonneg [OF assms] by simp

text \<open>Falling from rest: the target of a frame is an integer plus a multiple of 2.5.\<close>

lemma py_int_nonneg_add_half:
  "0 \<le> y \<Longrightarrow> py_int (of_int y + 5 / 2 * of_nat k) = y + int (5 * k div 2)"
proof -
  assume y: "0 \<le> y"
  have "of_int y + 5 / 2 * of_nat k = of_int y + of_nat (5 * k) / (2::real)" by simp
  moreover have "\<lfloor>of_int y + of_nat (5 * k) / (2::real)\<rfloor> = y + int (5 * k div 2)"
    using floor_divide_of_nat_eq [of "5 * k" 2] by (simp add: floor_add_int)
  ultimately show ?thesis using y by (simp add: py_int_def)
qed

lemma five_halves_step: "4 * (5 * Suc n div 2) + 2 * ((Suc n + 1) div 2) = 10 * Suc n + 2 * ((n + 1) div 2)"
proof (cases "even n")
  case True
  then obtain m where "n = 2 * m" by (auto elim: evenE)
  then show ?thesis by simp presburger
next
  case False
  then obtain m where "n = 2 * m + 1" by (auto elim: oddE)
  then show ?thesis by simp
qed
section \<open>Properties of the player\<close>

lemma player_fall_fields [simp]:
  "playerVelY (player_fall sz p) =
     (if playerVelY p < 10 \<and> \<not> playerFlapped p then playerVelY p + 1 else playerVelY p)"
  "playerFlapped (player_fall sz p) = False"
  "num_val (playery (player_fall sz p)) =
     num_val (playery p) + min (of_int (playerVelY (player_fall sz p)))
                               (GROUNDY - num_val (playery p) - of_int (player_h sz))"
  by (simp_all add: player_fall_def Let_def game_consts)

lemma player_flap_fields [simp]:
  "playery (player_flap p) = playery p"
  "playerVelY (player_flap p) = (if flap_accepted p then -10 else playerVelY p)"
  "playerFlapped (player_flap p) = (flap_accepted p \<or> playerFlapped p)"
  by (simp_all add: player_flap_def game_consts)

lemma player_flap_twice [simp]: "player_flap (player_flap p) = player_flap p"
  by (simp add: player_flap_def)

lemma flap_accepted_player_flap [simp]: "flap_accepted (player_flap p) = flap_accepted p"
  by (simp add: flap_accepted_def)

definition vel_bounded :: "player \<Rightarrow> bool" where
  "vel_bounded p \<longleftrightarrow> -20 \<le> playerVelY p \<and> playerVelY p \<le> 10"

lemma vel_bounded_init: "vel_bounded player_init"
  by (simp add: vel_bounded_def player_init_def)

lemma vel_bounded_flap: "vel_bounded p \<Longrightarrow> vel_bounded (player_flap p)"
  by (simp add: vel_bounded_def)

lemma vel_bounded_fall: "vel_bounded p \<Longrightarrow> vel_bounded (player_fall sz p)"
  by (simp add: vel_bounded_def)

text \<open>The player's top stays at or above \<open>GROUNDY - playerHeight\<close> once it is there.\<close>

definition above_ground :: "sprite_sizes \<Rightarrow> player \<Rightarrow> bool" where
  "above_ground sz p \<longleftrightarrow> num_val (playery p) \<le> GROUNDY - of_int (player_h sz)"

lemma above_ground_fall: "above_ground sz (player_fall sz p)"
  by (simp add: above_ground_def)

lemma above_ground_flap [simp]: "above_ground sz (player_flap p) = above_ground sz p"
  by (simp add: above_ground_def)

end
