(* ===== verification/Obstacles.thy ===== *)
theory Obstacles
  imports Game_Config
begin

text \<open>
  The obstacle generators of both games. In the sprite game (\<open>src/main.py\<close>) a pipe is a
  sprite (class \<open>Pipe\<close>, lines 61--81), \<open>get_random_pipes\<close> (lines 103--108) builds a
  bottom and a top pipe from one \<open>random.randint(100, 300)\<close> with exactly \<open>PIPE_GAP\<close>
  between them, and the main loop (lines 194--199) recycles the oldest pair once it is off
  screen: it removes the first two sprites of the group and appends a fresh pair at
  \<open>SCREEN_WIDTH * 2\<close>. In the dictionary game (\<open>src/unnamed/part_000\<close>) a pipe is a dict
  \<open>{'x', 'y'}\<close>, \<open>getRandomPipe\<close> (lines 143--153) draws the lower pipe's top with
  \<open>random.randrange\<close> and leaves an opening of \<open>SCREENHEIGHT / 3 - gap\<close>, and
  \<open>mainGame\<close> (lines 91--100) moves the two lists of pipes, appends a pair when the first
  pipe enters the band \<open>0 < x < 3.8\<close> and pops it once it has left the screen.
\<close>

section \<open>Pipes of the sprite game\<close>

definition pipe_init :: "main_images \<Rightarrow> bool \<Rightarrow> int \<Rightarrow> int \<Rightarrow> sprite" where
  "pipe_init imgs inverted xpos ysize =
     \<lparr>rect_x = xpos,
      rect_y = (if inverted then - (PIPE_HEIGHT - ysize) else SCREEN_HEIGHT - ysize),
      rect_w = PIPE_WIDTH, rect_h = PIPE_HEIGHT,
      mask = surf_opaque (if inverted then pipe_green_flipped imgs else pipe_green imgs)\<rparr>"

definition pipe_update :: "sprite \<Rightarrow> sprite" where
  "pipe_update p = p\<lparr>rect_x := rect_x p - GAME_SPEED\<rparr>"

definition is_off_screen :: "'a sprite_scheme \<Rightarrow> bool" where
  "is_off_screen s \<longleftrightarrow> rect_x s < - rect_w s"

definition get_random_pipes :: "main_images \<Rightarrow> int \<Rightarrow> int \<Rightarrow> py_error + sprite \<times> sprite" where
  "get_random_pipes imgs xpos seed =
     (case py_randint 100 300 seed of
        Inl e \<Rightarrow> Inl e
      | Inr sz \<Rightarrow>
          Inr (pipe_init imgs False xpos sz,
               pipe_init imgs True xpos (SCREEN_HEIGHT - sz - PIPE_GAP)))"

text \<open>Lines 194--199, on the pipe group as the list of its sprites in insertion order.\<close>

definition recycle_pipes :: "main_images \<Rightarrow> int \<Rightarrow> sprite list \<Rightarrow> py_error + sprite list" where
  "recycle_pipes imgs seed ps =
     (case py_first ps of
        Inl e \<Rightarrow> Inl e
      | Inr p \<Rightarrow>
          if is_off_screen p then
            (case py_pop0 ps of
               Inl e \<Rightarrow> Inl e
             | Inr ps1 \<Rightarrow>
                 (case py_pop0 ps1 of
                    Inl e \<Rightarrow> Inl e
                  | Inr ps2 \<Rightarrow>
                      (case get_random_pipes imgs (SCREEN_WIDTH * 2) seed of
                         Inl e \<Rightarrow> Inl e
                       | Inr (b, t) \<Rightarrow> Inr (ps2 @ [b, t]))))
          else Inr ps)"

text \<open>The group at start-up (lines 130--134): pairs at \<open>800\<close> and \<open>1200\<close>.\<close>

definition initial_pipes :: "main_images \<Rightarrow> int \<Rightarrow> int \<Rightarrow> py_error + sprite list" where
  "initial_pipes imgs seed0 seed1 =
     (case get_random_pipes imgs (SCREEN_WIDTH * 0 + 800) seed0 of
        Inl e \<Rightarrow> Inl e
      | Inr (b0, t0) \<Rightarrow>
          (case get_random_pipes imgs (SCREEN_WIDTH * 1 + 800) seed1 of
             Inl e \<Rightarrow> Inl e
           | Inr (b1, t1) \<Rightarrow> Inr [b0, t0, b1, t1]))"

section \<open>Pipes of the dictionary game\<close>

record pipe_dict =
  px :: real
  py :: real

definition getRandomPipe ::
  "sprite_sizes \<Rightarrow> real \<Rightarrow> int \<Rightarrow> py_error + pipe_dict \<times> pipe_dict" where
  "getRandomPipe sz gap seed =
     (let pipeHeight = pipe_h sz;
          offset = of_int SCREENHEIGHT / 3 - gap
      in case py_randrange 0 (py_int (of_int SCREENHEIGHT - of_int (base_h sz) - 6 / 5 * offset))
                seed of
           Inl e \<Rightarrow> Inl e
         | Inr r \<Rightarrow>
             (let y2 = offset + of_int r;
                  pipeX = SCREENWIDTH + 10;
                  y1 = of_int pipeHeight - y2 + offset
              in Inr (\<lparr>px = of_int pipeX, py = - y1\<rparr>, \<lparr>px = of_int pipeX, py = y2\<rparr>)))"

text \<open>
  Lines 91--93: \<open>for upperPipe, lowerPipe in zip(upperPipes, lowerPipes)\<close> moves both
  pipes of each pair; \<open>zip\<close> stops at the shorter list.
\<close>

definition move_pipe :: "pipe_dict \<Rightarrow> pipe_dict" where
  "move_pipe p = p\<lparr>px := px p + of_int pipeVelX\<rparr>"

fun move_pipes :: "pipe_dict list \<Rightarrow> pipe_dict list \<Rightarrow> pipe_dict list \<times> pipe_dict list" where
  "move_pipes (u # us) (l # ls) =
     (let (us', ls') = move_pipes us ls in (move_pipe u # us', move_pipe l # ls'))"
| "move_pipes us ls = (us, ls)"

text \<open>Lines 94--97: a new pair when the first pipe is in the band \<open>0 < x < 3.8\<close>.\<close>

definition spawn_pipes ::
  "sprite_sizes \<Rightarrow> real \<Rightarrow> int \<Rightarrow> pipe_dict list \<Rightarrow> pipe_dict list
   \<Rightarrow> py_error + pipe_dict list \<times> pipe_dict list" where
  "spawn_pipes sz gap seed us ls =
     (case py_first us of
        Inl e \<Rightarrow> Inl e
      | Inr u \<Rightarrow>
          if 0 < px u \<and> px u < 38 / 10 then
            (case getRandomPipe sz gap seed of
               Inl e \<Rightarrow> Inl e
             | Inr (nu, nl) \<Rightarrow> Inr (us @ [nu], ls @ [nl]))
          else Inr (us, ls))"

text \<open>Lines 98--100: the first pair is popped once the first pipe has left the screen.\<close>

definition prune_pipes ::
  "sprite_sizes \<Rightarrow> pipe_dict list \<Rightarrow> pipe_dict list
   \<Rightarrow> py_error + pipe_dict list \<times> pipe_dict list" where
  "prune_pipes sz us ls =
     (case py_first us of
        Inl e \<Rightarrow> Inl e
      | Inr u \<Rightarrow>
          if px u < - of_int (pipe_w sz) then
            (case py_pop0 us of
               Inl e \<Rightarrow> Inl e
             | Inr us2 \<Rightarrow>
                 (case py_pop0 ls of
                    Inl e \<Rightarrow> Inl e
                  | Inr ls2 \<Rightarrow> Inr (us2, ls2)))
          else Inr (us, ls))"

definition spawn_prune ::
  "sprite_sizes \<Rightarrow> real \<Rightarrow> int \<Rightarrow> pipe_dict list \<Rightarrow> pipe_dict list
   \<Rightarrow> py_error + pipe_dict list \<times> pipe_dict list" where
  "spawn_prune sz gap seed us ls =
     (case spawn_pipes sz gap seed us ls of
        Inl e \<Rightarrow> Inl e
      | Inr (us1, ls1) \<Rightarrow> prune_pipes sz us1 ls1)"

section \<open>Properties of the sprite game's pipes\<close>

lemma pipe_update_fields [simp]:
  "rect_x (pipe_update p) = rect_x p - 15"
  "rect_y (pipe_update p) = rect_y p"
  "rect_w (pipe_update p) = rect_w p"
  "rect_h (pipe_update p) = rect_h p"
  "mask (pipe_update p) = mask p"
  by (simp_all add: pipe_update_def GAME_SPEED_def)

lemma get_random_pipes_Inr:
  assumes "get_random_pipes imgs xpos seed = Inr (b, t)"
  shows "\<exists>sz. 100 \<le> sz \<and> sz \<le> 300 \<and> b = pipe_init imgs False xpos sz
            \<and> t = pipe_init imgs True xpos (450 - sz)"
  using assms
  by (force simp: get_random_pipes_def game_consts split: sum.splits dest!: py_randint_Inr)

lemma get_random_pipes_total: "\<exists>b t. get_random_pipes imgs xpos seed = Inr (b, t)"
  by (simp add: get_random_pipes_def py_randint_def py_randrange_def)

text \<open>A well-formed pair: bottom pipe first, top pipe second, \<open>PIPE_GAP\<close> between them.\<close>

definition pair_ok :: "main_images \<Rightarrow> sprite \<Rightarrow> sprite \<Rightarrow> bool" where
  "pair_ok imgs b t \<longleftrightarrow>
     rect_x t = rect_x b \<and> rect_w b = 80 \<and> rect_w t = 80 \<and> rect_h b = 500 \<and> rect_h t = 500
     \<and> rect_y b - (rect_y t + rect_h t) = 150 \<and> 300 \<le> rect_y b \<and> rect_y b \<le> 500
     \<and> mask b = surf_opaque (pipe_green imgs) \<and> mask t = surf_opaque (pipe_green_flipped imgs)"

lemma pair_ok_get_random_pipes:
  "get_random_pipes imgs xpos seed = Inr (b, t) \<Longrightarrow> pair_ok imgs b t \<and> rect_x b = xpos"
  by (drule get_random_pipes_Inr) (auto simp: pair_ok_def pipe_init_def game_consts)

lemma pair_ok_update: "pair_ok imgs b t \<Longrightarrow> pair_ok imgs (pipe_update b) (pipe_update t)"
  by (simp add: pair_ok_def)

text \<open>
  The horizontal spacing of the two pairs. Every pair the loop creates starts at 800, so its
  \<open>x\<close> is 5 modulo \<open>GAME_SPEED\<close>; only the second pair of the start-up group (at 1200)
  has residue 0. A pair is recycled at \<open>x = -85\<close> (residue 5) or \<open>x = -90\<close>
  (residue 0), which keeps the distance between the pairs within the bounds below.
\<close>

definition spacing_ok :: "int \<Rightarrow> int \<Rightarrow> bool" where
  "spacing_ok x1 x2 \<longleftrightarrow> -95 \<le> x1 \<and> x2 \<le> 1200 \<and>
     ((x1 mod 15 = 5 \<and> x2 mod 15 = 5 \<and> 385 \<le> x2 - x1 \<and> x2 - x1 \<le> 500)
      \<or> (x1 mod 15 = 5 \<and> x2 mod 15 = 0 \<and> x2 - x1 = 400)
      \<or> (x1 mod 15 = 0 \<and> x2 mod 15 = 5 \<and> 390 \<le> x2 - x1 \<and> x2 - x1 \<le> 505))"

lemma mod15_shift: "(x - 15) mod 15 = (x::int) mod 15"
  by simp

lemma spacing_ok_keep: "spacing_ok x1 x2 \<Longrightarrow> \<not> x1 < -80 \<Longrightarrow> spacing_ok (x1 - 15) (x2 - 15)"
  unfolding spacing_ok_def mod15_shift by linarith

lemma recycled_at_85: "-95 \<le> x \<Longrightarrow> x < -80 \<Longrightarrow> x mod 15 = 5 \<Longrightarrow> x = (-85::int)"
  by presburger

lemma recycled_at_90: "-95 \<le> x \<Longrightarrow> x < -80 \<Longrightarrow> x mod 15 = 0 \<Longrightarrow> x = (-90::int)"
  by presburger

lemma spacing_ok_recycle: "spacing_ok x1 x2 \<Longrightarrow> x1 < -80 \<Longrightarrow> spacing_ok (x2 - 15) 785"
proof -
  assume sp: "spacing_ok x1 x2" and off: "x1 < -80"
  then have lo: "-95 \<le> x1" by (simp add: spacing_ok_def)
  have m: "(785::int) mod 15 = 5" by simp
  from sp consider
      (A) "x1 mod 15 = 5" "x2 mod 15 = 5" "385 \<le> x2 - x1" "x2 - x1 \<le> 500"
    | (B) "x1 mod 15 = 5" "x2 mod 15 = 0" "x2 - x1 = 400"
    | (C) "x1 mod 15 = 0" "x2 mod 15 = 5" "390 \<le> x2 - x1" "x2 - x1 \<le> 505"
    unfolding spacing_ok_def by blast
  then show ?thesis
  proof cases
    case A
    with recycled_at_85 [OF lo off] show ?thesis unfolding spacing_ok_def mod15_shift m by simp
  next
    case B
    with recycled_at_85 [OF lo off] show ?thesis unfolding spacing_ok_def mod15_shift m by simp
  next
    case C
    with recycled_at_90 [OF lo off] show ?thesis unfolding spacing_ok_def mod15_shift m by simp
  qed
qed

lemma spacing_ok_sorted: "spacing_ok x1 x2 \<Longrightarrow> x1 < x2"
  unfolding spacing_ok_def by linarith

fun pipes_inv :: "main_images \<Rightarrow> sprite list \<Rightarrow> bool" where
  "pipes_inv imgs [b1, t1, b2, t2] =
     (pair_ok imgs b1 t1 \<and> pair_ok imgs b2 t2 \<and> spacing_ok (rect_x b1) (rect_x b2))"
| "pipes_inv imgs _ = False"

lemma pipes_inv_initial:
  "initial_pipes imgs s0 s1 = Inr ps \<Longrightarrow> pipes_inv imgs ps"
  by (auto simp: initial_pipes_def spacing_ok_def game_consts split: sum.splits
           dest!: pair_ok_get_random_pipes)

lemma initial_pipes_total: "\<exists>ps. initial_pipes imgs s0 s1 = Inr ps"
  using get_random_pipes_total [of imgs 800 s0] get_random_pipes_total [of imgs 1200 s1]
  by (auto simp: initial_pipes_def game_consts)

text \<open>One frame of the pipe group: recycling (lines 194--199), then \<open>pipe_group.update()\<close>.\<close>

lemma pipes_inv_step:
  assumes "pipes_inv imgs ps"
  shows "\<exists>ps'. recycle_pipes imgs seed ps = Inr ps' \<and> pipes_inv imgs (map pipe_update ps')"
proof -
  obtain b1 t1 b2 t2 where ps: "ps = [b1, t1, b2, t2]"
    and p1: "pair_ok imgs b1 t1" and p2: "pair_ok imgs b2 t2"
    and sp: "spacing_ok (rect_x b1) (rect_x b2)"
    using assms by (cases "(imgs, ps)" rule: pipes_inv.cases) auto
  have w1: "rect_w b1 = 80" using p1 by (simp add: pair_ok_def)
  show ?thesis
  proof (cases "rect_x b1 < -80")
    case True
    obtain b t where bt: "get_random_pipes imgs 800 seed = Inr (b, t)"
      using get_random_pipes_total by blast
    from pair_ok_get_random_pipes [OF bt] have "pair_ok imgs b t" and "rect_x b = 800"
      by simp_all
    moreover have "recycle_pipes imgs seed ps = Inr [b2, t2, b, t]"
      using True w1 bt by (simp add: recycle_pipes_def ps is_off_screen_def game_consts)
    ultimately show ?thesis
      using p2 spacing_ok_recycle [OF sp True] by (simp add: pair_ok_update)
  next
    case False
    then have "recycle_pipes imgs seed ps = Inr ps"
      using w1 by (simp add: recycle_pipes_def ps is_off_screen_def)
    then show ?thesis
      using p1 p2 spacing_ok_keep [OF sp False] by (simp add: ps pair_ok_update)
  qed
qed

section \<open>Properties of the dictionary game's pipes\<close>

lemma getRandomPipe_Inr:
  assumes "getRandomPipe sz gap seed = Inr (u, l)"
  obtains r where "0 \<le> r"
    and "r < py_int (of_int SCREENHEIGHT - of_int (base_h sz) - 6 / 5 * (of_int SCREENHEIGHT / 3 - gap))"
    and "py l = of_int SCREENHEIGHT / 3 - gap + of_int r"
    and "py u = - (of_int (pipe_h sz) - py l + (of_int SCREENHEIGHT / 3 - gap))"
    and "px u = 588" and "px l = 588"
  using assms
  by (auto simp: getRandomPipe_def Let_def game_consts split: sum.splits dest!: py_randrange_Inr)

lemma getRandomPipe_Inl:
  "getRandomPipe sz gap seed = Inl e \<longleftrightarrow>
     e = ValueError
     \<and> py_int (of_int SCREENHEIGHT - of_int (base_h sz) - 6 / 5 * (of_int SCREENHEIGHT / 3 - gap)) \<le> 0"
  by (auto simp: getRandomPipe_def Let_def py_randrange_def)

lemma getRandomPipe_total:
  assumes "0 \<le> gap" and "base_h sz \<le> 305"
  shows "\<exists>u l. getRandomPipe sz gap seed = Inr (u, l)"
proof -
  have "of_int (base_h sz) \<le> (305::real)" using assms(2) by simp
  then have "(1::real) \<le> of_int SCREENHEIGHT - of_int (base_h sz) - 6 / 5 * (of_int SCREENHEIGHT / 3 - gap)"
    using assms(1) by (simp add: game_consts field_simps)
  from py_int_mono [OF this]
  have "0 < py_int (of_int SCREENHEIGHT - of_int (base_h sz) - 6 / 5 * (of_int SCREENHEIGHT / 3 - gap))"
    by (simp add: py_int_def)
  then show ?thesis
    by (cases "getRandomPipe sz gap seed") (auto simp: getRandomPipe_Inl)
qed

definition pipes_aligned :: "pipe_dict list \<Rightarrow> pipe_dict list \<Rightarrow> bool" where
  "pipes_aligned us ls \<longleftrightarrow> map px us = map px ls"

lemma pipes_aligned_length: "pipes_aligned us ls \<Longrightarrow> length us = length ls"
  unfolding pipes_aligned_def by (metis length_map)

lemma move_pipe_px [simp]: "px (move_pipe p) = px p - 3"
  by (simp add: move_pipe_def game_consts)

lemma move_pipe_funpow_px: "px ((move_pipe ^^ k) p) = px p - 3 * of_nat k"
  by (induction k) (simp_all add: algebra_simps)

lemma move_pipes_eq:
  "length us = length ls \<Longrightarrow> move_pipes us ls = (map move_pipe us, map move_pipe ls)"
  by (induction us ls rule: list_induct2) simp_all

lemma move_pipes_aligned:
  assumes "pipes_aligned us ls" and "move_pipes us ls = (us', ls')"
  shows "pipes_aligned us' ls' \<and> map px us' = map (\<lambda>x. x - 3) (map px us)"
proof -
  have "us' = map move_pipe us" and "ls' = map move_pipe ls"
    using assms move_pipes_eq [OF pipes_aligned_length [OF assms(1)]] by simp_all
  then have "map px us' = map (\<lambda>x. x - 3) (map px us)"
    and "map px ls' = map (\<lambda>x. x - 3) (map px ls)"
    by (simp_all add: comp_def)
  moreover have "map px us = map px ls"
    using assms(1) by (simp add: pipes_aligned_def)
  ultimately show ?thesis
    unfolding pipes_aligned_def by simp
qed

lemma spawn_pipes_aligned:
  assumes "pipes_aligned us ls" and "spawn_pipes sz gap seed us ls = Inr (us', ls')"
  shows "pipes_aligned us' ls' \<and> us' \<noteq> []"
  using assms
  by (auto simp: spawn_pipes_def py_first_def pipes_aligned_def
           split: list.splits if_splits sum.splits elim!: getRandomPipe_Inr)

lemma prune_pipes_aligned:
  assumes "pipes_aligned us ls" and "prune_pipes sz us ls = Inr (us', ls')"
  shows "pipes_aligned us' ls'"
  using assms
  by (auto simp: prune_pipes_def py_first_def py_pop0_def pipes_aligned_def
           split: list.splits if_splits)

lemma spawn_prune_aligned:
  assumes "pipes_aligned us ls" and "spawn_prune sz gap seed us ls = Inr (us', ls')"
  shows "pipes_aligned us' ls'"
  using assms
  by (auto simp: spawn_prune_def split: sum.splits
           dest!: spawn_pipes_aligned [OF assms(1)] intro: prune_pipes_aligned)

lemma spawn_pipes_Inl:
  "spawn_pipes sz gap seed us ls = Inl e \<Longrightarrow> us = [] \<and> e = IndexError \<or> e = ValueError"
  by (auto simp: spawn_pipes_def py_first_def getRandomPipe_Inl split: list.splits if_splits sum.splits)

lemma prune_pipes_Inl:
  "pipes_aligned us ls \<Longrightarrow> us \<noteq> [] \<Longrightarrow> prune_pipes sz us ls \<noteq> Inl e"
  by (cases us; cases ls) (auto simp: prune_pipes_def pipes_aligned_def)

lemma spawn_prune_Inl:
  assumes "pipes_aligned us ls" and "spawn_prune sz gap seed us ls = Inl e"
  shows "us = [] \<and> e = IndexError \<or> e = ValueError"
  using assms
  by (auto simp: spawn_prune_def split: sum.splits
           dest: spawn_pipes_Inl spawn_pipes_aligned [OF assms(1)] prune_pipes_Inl)

lemma spawn_pipes_Inl_cause:
  "spawn_pipes sz gap seed us ls = Inl e \<Longrightarrow>
     us = [] \<and> e = IndexError \<or> getRandomPipe sz gap seed = Inl e"
  by (auto simp: spawn_pipes_def py_first_def split: list.splits if_splits sum.splits)

lemma spawn_prune_Inl_cause:
  assumes "pipes_aligned us ls" and "spawn_prune sz gap seed us ls = Inl e"
  shows "us = [] \<and> e = IndexError \<or> getRandomPipe sz gap seed = Inl e"
  using assms
  by (auto simp: spawn_prune_def split: sum.splits
           dest: spawn_pipes_Inl_cause spawn_pipes_aligned [OF assms(1)] prune_pipes_Inl)

text \<open>Spawning and pruning keep every pipe that has not left the screen.\<close>

lemma spawn_prune_keeps:
  assumes "spawn_prune sz g seed us ls = Inr (us', ls')" and "x \<in> set us"
    and "\<not> px x < - of_int (pipe_w sz)"
  shows "x \<in> set us'"
  using assms
  by (auto simp: spawn_prune_def spawn_pipes_def prune_pipes_def py_first_def py_pop0_def
           split: sum.splits list.splits if_splits prod.splits)

end
