(* ===== verification/Collision.thy ===== *)
theory Collision
  imports Physics Obstacles
begin

text \<open>
  Collision detection of both games. The sprite game (\<open>src/main.py\<close>, lines 214--215)
  asks \<open>pygame.sprite.groupcollide\<close> with \<open>pygame.sprite.collide_mask\<close> whether the
  bird's mask overlaps the mask of any ground segment or any pipe; pygame places the right
  mask at the offset of the two rectangles' top-left corners. There is no test against the
  top of the screen. The dictionary game's \<open>isCollide\<close> (\<open>src/unnamed/part_000\<close>,
  lines 126--142) first tests the player's top against two fixed lines, then each upper and
  each lower pipe with a one-sided vertical test and \<open>abs(playerx - pipe['x']) <
  pipe_width\<close> horizontally; on an upper pipe it runs \<open>range(playery)\<close>, which raises
  \<open>TypeError\<close> once \<open>playery\<close> has become a float.
\<close>

section \<open>Mask collision of the sprite game\<close>

text \<open>
  \<open>collide_mask(left, right)\<close> is \<open>left.mask.overlap(right.mask, offset)\<close> with the
  offset of \<open>right.rect\<close> from \<open>left.rect\<close>: a set bit of the left mask at \<open>(x, y)\<close>
  meets a set bit of the right mask at \<open>(x - dx, y - dy)\<close>.
\<close>

definition collide_mask :: "'a sprite_scheme \<Rightarrow> 'b sprite_scheme \<Rightarrow> bool" where
  "collide_mask l r =
     (let dx = rect_x r - rect_x l; dy = rect_y r - rect_y l
      in list_ex (\<lambda>(x, y). (x - dx, y - dy) \<in> set (mask r)) (mask l))"

definition groupcollide_any :: "bird \<Rightarrow> sprite list \<Rightarrow> bool" where
  "groupcollide_any b sprites = list_ex (collide_mask b) sprites"

definition bird_crashed :: "bird \<Rightarrow> sprite list \<Rightarrow> sprite list \<Rightarrow> bool" where
  "bird_crashed b grounds pipes \<longleftrightarrow> groupcollide_any b grounds \<or> groupcollide_any b pipes"

section \<open>The dictionary game's \<open>isCollide\<close>\<close>

definition isCollide ::
  "sprite_sizes \<Rightarrow> int \<Rightarrow> py_num \<Rightarrow> pipe_dict list \<Rightarrow> pipe_dict list \<Rightarrow> py_error + bool" where
  "isCollide sz x0 y0 ups lows =
     (let y = num_val y0 in
      if of_int SCREENHEIGHT - 130 < y \<or> y < 0 then Inr True
      else if list_ex (\<lambda>p. y < of_int (pipe_h sz) + py p
                          \<and> \<bar>of_int x0 - px p\<bar> < of_int (pipe_w sz)) ups
      then (if is_py_int y0 then Inr True else Inl TypeError)
      else Inr (list_ex (\<lambda>p. py p < y + of_int (player_h sz)
                            \<and> \<bar>of_int x0 - px p\<bar> < of_int (pipe_w sz)) lows))"

section \<open>Properties of mask collision\<close>

text \<open>Two sprites collide exactly when an opaque pixel of each lies on the same screen pixel.\<close>

lemma collide_mask_iff:
  "collide_mask l r \<longleftrightarrow>
     (\<exists>x y x' y'. (x, y) \<in> set (mask l) \<and> (x', y') \<in> set (mask r)
        \<and> rect_x l + x = rect_x r + x' \<and> rect_y l + y = rect_y r + y')"
proof
  assume "collide_mask l r"
  then obtain x y where "(x, y) \<in> set (mask l)"
    and "(x - (rect_x r - rect_x l), y - (rect_y r - rect_y l)) \<in> set (mask r)"
    by (auto simp: collide_mask_def Let_def list_ex_iff)
  then show "\<exists>x y x' y'. (x, y) \<in> set (mask l) \<and> (x', y') \<in> set (mask r)
        \<and> rect_x l + x = rect_x r + x' \<and> rect_y l + y = rect_y r + y'"
    by fastforce
next
  assume "\<exists>x y x' y'. (x, y) \<in> set (mask l) \<and> (x', y') \<in> set (mask r)
        \<and> rect_x l + x = rect_x r + x' \<and> rect_y l + y = rect_y r + y'"
  then obtain x y x' y' where l: "(x, y) \<in> set (mask l)" and r: "(x', y') \<in> set (mask r)"
    and "rect_x l + x = rect_x r + x'" and "rect_y l + y = rect_y r + y'"
    by blast
  then have "(x - (rect_x r - rect_x l), y - (rect_y r - rect_y l)) = (x', y')"
    by simp
  with l r show "collide_mask l r"
    by (auto simp: collide_mask_def Let_def list_ex_iff)
qed

text \<open>The mask of a loaded image holds only pixels inside the image.\<close>

definition mask_inside :: "'a sprite_scheme \<Rightarrow> bool" where
  "mask_inside s \<longleftrightarrow> list_all (\<lambda>(x, y). 0 \<le> x \<and> x < rect_w s \<and> 0 \<le> y \<and> y < rect_h s) (mask s)"

lemma collide_mask_rows:
  assumes "collide_mask l r" and "mask_inside l" and "mask_inside r"
  shows "rect_y r < rect_y l + rect_h l \<and> rect_y l < rect_y r + rect_h r"
  using assms
  by (fastforce simp: collide_mask_iff mask_inside_def list_all_iff)

section \<open>Properties of \<open>isCollide\<close>\<close>

lemma isCollide_bounds:
  "of_int SCREENHEIGHT - 130 < num_val y \<or> num_val y < 0 \<Longrightarrow> isCollide sz x y us ls = Inr True"
  by (simp add: isCollide_def)

lemma isCollide_no_pipes:
  "isCollide sz x y [] [] = Inr (381 < num_val y \<or> num_val y < 0)"
  by (simp add: isCollide_def Let_def game_consts)

end
