(* ===== verification/Scroll.thy ===== *)
theory Scroll
  imports Obstacles
begin

text \<open>
  The scrolling world of both games. The sprite game (\<open>src/main.py\<close>) keeps a group of
  \<open>Ground\<close> sprites (class \<open>Ground\<close>, lines 83--97; two of them created at lines
  125--128); every frame, in the start screen (lines 159--165) as in the game
  (lines 189--203), a first segment that is off screen is removed and a new one is appended
  at \<open>GROUND_WIDTH - 20\<close>, then every segment moves left by \<open>GAME_SPEED\<close>. The
  dictionary game (\<open>src/unnamed/part_000\<close>, lines 60--63 and 117--124) moves two copies of
  the background one pixel left per frame and puts one that has left the screen right behind
  the other. The ground of the dictionary game does not scroll (\<open>basex\<close> stays 0).
  Both scrolls keep an invariant (\<open>grounds_inv\<close>, \<open>bg_inv\<close>) under which the screen
  is covered; the background pair is related to its abstract view \<open>bg_view\<close>, the offset
  of one tiling, which advances by one pixel modulo the width in every frame.
\<close>

section \<open>Ground of the sprite game\<close>

definition ground_init :: "main_images \<Rightarrow> int \<Rightarrow> sprite" where
  "ground_init imgs xpos =
     \<lparr>rect_x = xpos, rect_y = SCREEN_HEIGHT - GROUND_HEIGHT,
      rect_w = GROUND_WIDTH, rect_h = GROUND_HEIGHT, mask = surf_opaque (base_image imgs)\<rparr>"

definition ground_update :: "sprite \<Rightarrow> sprite" where
  "ground_update g = g\<lparr>rect_x := rect_x g - GAME_SPEED\<rparr>"

definition initial_grounds :: "main_images \<Rightarrow> sprite list" where
  "initial_grounds imgs = [ground_init imgs (GROUND_WIDTH * 0), ground_init imgs (GROUND_WIDTH * 1)]"

definition recycle_ground :: "main_images \<Rightarrow> sprite list \<Rightarrow> py_error + sprite list" where
  "recycle_ground imgs gs =
     (case py_first gs of
        Inl e \<Rightarrow> Inl e
      | Inr g \<Rightarrow>
          if is_off_screen g then Inr (tl gs @ [ground_init imgs (GROUND_WIDTH - 20)])
          else Inr gs)"

section \<open>Background of the dictionary game\<close>

definition initial_background :: "sprite_sizes \<Rightarrow> int \<times> int" where
  "initial_background sz = (0, background_w sz)"

definition scroll_background :: "sprite_sizes \<Rightarrow> int \<times> int \<Rightarrow> int \<times> int" where
  "scroll_background sz bg =
     (let w = background_w sz;
          bgOne_x = fst bg - 1;
          bgTwo_x = snd bg - 1;
          bgOne_x = (if bgOne_x < -1 * w then bgTwo_x + w else bgOne_x);
          bgTwo_x = (if bgTwo_x < -1 * w then bgOne_x + w else bgTwo_x)
      in (bgOne_x, bgTwo_x))"

section \<open>Properties of the ground\<close>

lemma ground_update_fields [simp]:
  "rect_x (ground_update g) = rect_x g - 15"
  "rect_y (ground_update g) = rect_y g"
  "rect_w (ground_update g) = rect_w g"
  "rect_h (ground_update g) = rect_h g"
  "mask (ground_update g) = mask g"
  by (simp_all add: ground_update_def GAME_SPEED_def)

definition ground_ok :: "main_images \<Rightarrow> sprite \<Rightarrow> bool" where
  "ground_ok imgs g \<longleftrightarrow> rect_y g = 500 \<and> rect_w g = 800 \<and> rect_h g = 100
     \<and> mask g = surf_opaque (base_image imgs)"

lemma ground_ok_init [simp]: "ground_ok imgs (ground_init imgs x)"
  by (simp add: ground_ok_def ground_init_def game_consts)

lemma ground_ok_update [simp]: "ground_ok imgs (ground_update g) = ground_ok imgs g"
  by (simp add: ground_ok_def)

lemma rect_x_ground_init [simp]: "rect_x (ground_init imgs x) = x"
  by (simp add: ground_init_def)

text \<open>
  The two segments at the head of a frame. A segment is recycled at \<open>x = -810\<close> or
  \<open>x = -805\<close> (its residue modulo \<open>GAME_SPEED\<close>), and the distance to its successor is
  800 at start-up, then 790, then 795 for ever.
\<close>

definition ground_spacing :: "int \<Rightarrow> int \<Rightarrow> bool" where
  "ground_spacing x1 x2 \<longleftrightarrow> -815 \<le> x1 \<and> x1 \<le> 0 \<and>
     ((x1 mod 15 = 0 \<and> x2 - x1 = 800) \<or> (x1 mod 15 = 5 \<and> x2 - x1 = 790)
      \<or> (x1 mod 15 = 0 \<and> x2 - x1 = 795))"

fun grounds_inv :: "main_images \<Rightarrow> sprite list \<Rightarrow> bool" where
  "grounds_inv imgs [g1, g2] =
     (ground_ok imgs g1 \<and> ground_ok imgs g2 \<and> ground_spacing (rect_x g1) (rect_x g2))"
| "grounds_inv imgs _ = False"

lemma grounds_inv_initial: "grounds_inv imgs (initial_grounds imgs)"
  by (simp add: initial_grounds_def ground_spacing_def game_consts)

lemma ground_spacing_keep:
  "ground_spacing x1 x2 \<Longrightarrow> \<not> x1 < -800 \<Longrightarrow> ground_spacing (x1 - 15) (x2 - 15)"
  unfolding ground_spacing_def mod15_shift by linarith

lemma ground_recycled_at_810: "-815 \<le> x \<Longrightarrow> x < -800 \<Longrightarrow> x mod 15 = 0 \<Longrightarrow> x = (-810::int)"
  by presburger

lemma ground_recycled_at_805: "-815 \<le> x \<Longrightarrow> x < -800 \<Longrightarrow> x mod 15 = 5 \<Longrightarrow> x = (-805::int)"
  by presburger

lemma ground_spacing_recycle:
  assumes "ground_spacing x1 x2" and "x1 < -800"
  shows "ground_spacing (x2 - 15) 765"
proof -
  have lo: "-815 \<le> x1" using assms(1) by (simp add: ground_spacing_def)
  from assms(1) consider (A) "x1 mod 15 = 0" "x2 - x1 = 800"
    | (B) "x1 mod 15 = 5" "x2 - x1 = 790" | (C) "x1 mod 15 = 0" "x2 - x1 = 795"
    unfolding ground_spacing_def by blast
  then show ?thesis
  proof cases
    case A
    with ground_recycled_at_810 [OF lo assms(2)] have "x2 = -10" by simp
    then show ?thesis by (simp add: ground_spacing_def)
  next
    case B
    with ground_recycled_at_805 [OF lo assms(2)] have "x2 = -15" by simp
    then show ?thesis by (simp add: ground_spacing_def)
  next
    case C
    with ground_recycled_at_810 [OF lo assms(2)] have "x2 = -15" by simp
    then show ?thesis by (simp add: ground_spacing_def)
  qed
qed

text \<open>One frame of the ground group: recycling, then \<open>ground_group.update()\<close>.\<close>

lemma grounds_inv_step:
  assumes "grounds_inv imgs gs"
  shows "\<exists>gs'. recycle_ground imgs gs = Inr gs' \<and> grounds_inv imgs (map ground_update gs')"
proof -
  obtain g1 g2 where gs: "gs = [g1, g2]" and o1: "ground_ok imgs g1" and o2: "ground_ok imgs g2"
    and sp: "ground_spacing (rect_x g1) (rect_x g2)"
    using assms by (cases "(imgs, gs)" rule: grounds_inv.cases) auto
  have w1: "rect_w g1 = 800" using o1 by (simp add: ground_ok_def)
  show ?thesis
  proof (cases "rect_x g1 < -800")
    case True
    then have "recycle_ground imgs gs = Inr [g2, ground_init imgs 780]"
      using w1 by (simp add: recycle_ground_def gs is_off_screen_def game_consts)
    then show ?thesis
      using o2 ground_spacing_recycle [OF sp True] by simp
  next
    case False
    then have "recycle_ground imgs gs = Inr gs"
      using w1 by (simp add: recycle_ground_def gs is_off_screen_def)
    then show ?thesis
      using o1 o2 ground_spacing_keep [OF sp False] by (simp add: gs)
  qed
qed

section \<open>Properties of the background\<close>

definition bg_inv :: "sprite_sizes \<Rightarrow> int \<times> int \<Rightarrow> bool" where
  "bg_inv sz bg \<longleftrightarrow>
     (let w = background_w sz; x1 = fst bg; x2 = snd bg
      in -w \<le> x1 \<and> -w \<le> x2 \<and> min x1 x2 \<le> 0 \<and> \<bar>x1 - x2\<bar> = w)"

text \<open>
  The abstract view of the background: the visible offset of the tiling, the distance
  of the leftmost copy behind the left edge of the screen, modulo the image width.
\<close>

definition bg_view :: "sprite_sizes \<Rightarrow> int \<times> int \<Rightarrow> int" where
  "bg_view sz bg = (- min (fst bg) (snd bg)) mod background_w sz"

lemma bg_inv_initial: "0 < background_w sz \<Longrightarrow> bg_inv sz (initial_background sz)"
  by (simp add: bg_inv_def initial_background_def)

lemma bg_inv_scroll:
  assumes "0 < background_w sz" and "bg_inv sz bg"
  shows "bg_inv sz (scroll_background sz bg)"
  using assms
  by (cases bg) (auto simp: bg_inv_def scroll_background_def Let_def abs_if)

lemma scroll_background_cases:
  assumes "0 < background_w sz" and "bg_inv sz bg"
  shows "- min (fst (scroll_background sz bg)) (snd (scroll_background sz bg))
           = (if - min (fst bg) (snd bg) = background_w sz then 1 else - min (fst bg) (snd bg) + 1)"
  using assms
  by (cases bg) (auto simp: bg_inv_def scroll_background_def Let_def abs_if min_def)

lemma bg_view_scroll:
  assumes "0 < background_w sz" and "bg_inv sz bg"
  shows "bg_view sz (scroll_background sz bg) = (bg_view sz bg + 1) mod background_w sz"
proof (cases "- min (fst bg) (snd bg) = background_w sz")
  case True
  then show ?thesis using scroll_background_cases [OF assms]
    by (simp add: bg_view_def)
next
  case False
  then show ?thesis using scroll_background_cases [OF assms]
    by (simp add: bg_view_def mod_add_left_eq)
qed

text \<open>Between them the two segments cover the whole width of the screen.\<close>

lemma grounds_inv_cover:
  assumes "grounds_inv imgs gs" and "0 \<le> x" and "x < SCREEN_WIDTH"
  shows "\<exists>g \<in> set gs. rect_x g \<le> x \<and> x < rect_x g + rect_w g"
proof -
  obtain g1 g2 where gs: "gs = [g1, g2]" and o1: "ground_ok imgs g1" and o2: "ground_ok imgs g2"
    and sp: "ground_spacing (rect_x g1) (rect_x g2)"
    using assms(1) by (cases "(imgs, gs)" rule: grounds_inv.cases) auto
  have "rect_w g1 = 800" "rect_w g2 = 800" using o1 o2 by (simp_all add: ground_ok_def)
  then have "rect_x g1 \<le> x \<and> x < rect_x g1 + rect_w g1 \<or> rect_x g2 \<le> x \<and> x < rect_x g2 + rect_w g2"
    using sp assms(2,3) unfolding ground_spacing_def SCREEN_WIDTH_def by linarith
  then show ?thesis by (auto simp: gs)
qed

end
