(* ===== verification/Sprite_Game.thy ===== *)
theory Sprite_Game
  imports Collision Scroll
begin

text \<open>
  The game loop of the sprite game, \<open>src/main.py\<close> lines 110--219. The module sets up the
  bird, two ground segments and two pipe pairs, runs the start-screen loop until a flap key,
  then the game loop until the bird's mask meets the ground or a pipe; then it plays the hit
  sound, sleeps a second and leaves the loop, which ends the program. A frame of either loop
  is one function of the world and the frame's events; the random draw of a recycled pipe
  pair is the frame's seed. The reachable worlds are an inductive predicate, and the world
  invariant (bird column, bird mask, two ground segments covering the screen, two well-formed
  pipe pairs) is proved by rule induction.
\<close>

section \<open>The world and its frames\<close>

datatype phase = Welcome | Playing | Crashed

record world =
  the_bird :: bird
  grounds :: "sprite list"
  pipe_group :: "sprite list"
  phase :: phase

text \<open>
  The event loop of both frames (lines 143--152 and 176--184): \<open>QUIT\<close> calls
  \<open>sys.exit()\<close>, but \<open>sys\<close> is never imported, so it raises \<open>NameError\<close>; a flap key
  bumps the bird and plays the wing sound. The result counts the accepted flaps.
\<close>

fun poll_events :: "bird \<Rightarrow> event list \<Rightarrow> py_error + bird \<times> nat" where
  "poll_events b [] = Inr (b, 0)"
| "poll_events b (QUIT # es) = Inl NameError"
| "poll_events b (KEYDOWN k # es) =
     (if flap_key k
      then (case poll_events (bird_bump b) es of Inl e \<Rightarrow> Inl e | Inr (b', n) \<Rightarrow> Inr (b', Suc n))
      else poll_events b es)"
| "poll_events b (OTHER_EVENT # es) = poll_events b es"

definition world_init :: "main_images \<Rightarrow> int \<Rightarrow> int \<Rightarrow> py_error + world" where
  "world_init imgs s0 s1 =
     (case initial_pipes imgs s0 s1 of
        Inl e \<Rightarrow> Inl e
      | Inr ps \<Rightarrow>
          Inr \<lparr>the_bird = bird_init imgs, grounds = initial_grounds imgs, pipe_group = ps,
               phase = Welcome\<rparr>)"

text \<open>One pass of the start-screen loop (lines 141--171).\<close>

definition welcome_frame :: "main_images \<Rightarrow> world \<Rightarrow> event list \<Rightarrow> py_error + world \<times> cue list" where
  "welcome_frame imgs w es =
     (case poll_events (the_bird w) es of
        Inl e \<Rightarrow> Inl e
      | Inr (b, n) \<Rightarrow>
          (case recycle_ground imgs (grounds w) of
             Inl e \<Rightarrow> Inl e
           | Inr gs \<Rightarrow>
               Inr (w\<lparr>the_bird := bird_begin b, grounds := map ground_update gs,
                      phase := (if 0 < n then Playing else Welcome)\<rparr>,
                    replicate n Wing)))"

text \<open>One pass of the game loop (lines 174--219).\<close>

definition play_frame ::
  "main_images \<Rightarrow> int \<Rightarrow> world \<Rightarrow> event list \<Rightarrow> py_error + world \<times> cue list" where
  "play_frame imgs seed w es =
     (case poll_events (the_bird w) es of
        Inl e \<Rightarrow> Inl e
      | Inr (b, n) \<Rightarrow>
          (case recycle_ground imgs (grounds w) of
             Inl e \<Rightarrow> Inl e
           | Inr gs \<Rightarrow>
               (case recycle_pipes imgs seed (pipe_group w) of
                  Inl e \<Rightarrow> Inl e
                | Inr ps \<Rightarrow>
                    (let b' = bird_update b; gs' = map ground_update gs; ps' = map pipe_update ps;
                         crashed = bird_crashed b' gs' ps'
                     in Inr (w\<lparr>the_bird := b', grounds := gs', pipe_group := ps',
                               phase := (if crashed then Crashed else Playing)\<rparr>,
                             replicate n Wing @ (if crashed then [Hit] else []))))))"

definition sprite_frame ::
  "main_images \<Rightarrow> int \<Rightarrow> world \<Rightarrow> event list \<Rightarrow> py_error + world \<times> cue list" where
  "sprite_frame imgs seed w es =
     (case phase w of
        Welcome \<Rightarrow> welcome_frame imgs w es
      | Playing \<Rightarrow> play_frame imgs seed w es
      | Crashed \<Rightarrow> Inr (w, []))"

inductive sprite_reachable :: "main_images \<Rightarrow> world \<Rightarrow> bool" for imgs where
  init: "world_init imgs s0 s1 = Inr w \<Longrightarrow> sprite_reachable imgs w"
| frame: "sprite_reachable imgs w \<Longrightarrow> phase w \<noteq> Crashed \<Longrightarrow>
          sprite_frame imgs seed w es = Inr (w', cs) \<Longrightarrow> sprite_reachable imgs w'"

section \<open>Lemmas on the frames\<close>

lemma poll_events_Inr:
  "poll_events b es = Inr (b', n) \<Longrightarrow>
     rect_x b' = rect_x b \<and> rect_y b' = rect_y b \<and> mask b' = mask b
     \<and> n = length (filter is_flap_event es) \<and> speed b' = (if 0 < n then -20 else speed b)"
proof (induction b es arbitrary: b' n rule: poll_events.induct)
  case (3 b k es)
  show ?case
  proof (cases "flap_key k")
    case True
    with "3.prems" obtain m where r: "poll_events (bird_bump b) es = Inr (b', m)" and "n = Suc m"
      by (auto split: sum.splits)
    with "3.IH"(1) [OF True r] True show ?thesis by simp
  next
    case False
    with "3.prems" "3.IH"(2) [OF False] show ?thesis by simp
  qed
qed auto

lemma poll_events_Inl: "poll_events b es = Inl e \<longleftrightarrow> e = NameError \<and> QUIT \<in> set es"
  by (induction b es rule: poll_events.induct) (auto split: sum.splits)

lemma poll_events_QUIT: "QUIT \<in> set es \<Longrightarrow> poll_events b es = Inl NameError"
  by (induction b es rule: poll_events.induct) (auto split: sum.splits)

lemma poll_events_total: "QUIT \<notin> set es \<Longrightarrow> \<exists>b' n. poll_events b es = Inr (b', n)"
  by (cases "poll_events b es") (auto simp: poll_events_Inl)

definition world_inv :: "main_images \<Rightarrow> world \<Rightarrow> bool" where
  "world_inv imgs w \<longleftrightarrow>
     rect_x (the_bird w) = 66 \<and> mask (the_bird w) = surf_opaque (bird_upflap imgs)
     \<and> grounds_inv imgs (grounds w) \<and> pipes_inv imgs (pipe_group w)"

lemma world_inv_init: "world_init imgs s0 s1 = Inr w \<Longrightarrow> world_inv imgs w"
  by (auto simp: world_init_def world_inv_def grounds_inv_initial split: sum.splits
           intro: pipes_inv_initial)

lemma world_inv_welcome:
  assumes "world_inv imgs w" and "welcome_frame imgs w es = Inr (w', cs)"
  shows "world_inv imgs w'"
proof -
  obtain gs' where "recycle_ground imgs (grounds w) = Inr gs'"
    and "grounds_inv imgs (map ground_update gs')"
    using grounds_inv_step assms(1) unfolding world_inv_def by blast
  then show ?thesis
    using assms
    by (auto simp: welcome_frame_def world_inv_def split: sum.splits dest!: poll_events_Inr)
qed

lemma world_inv_play:
  assumes "world_inv imgs w" and "play_frame imgs seed w es = Inr (w', cs)"
  shows "world_inv imgs w'"
proof -
  obtain gs' where "recycle_ground imgs (grounds w) = Inr gs'"
    and "grounds_inv imgs (map ground_update gs')"
    using grounds_inv_step assms(1) unfolding world_inv_def by blast
  moreover obtain ps' where "recycle_pipes imgs seed (pipe_group w) = Inr ps'"
    and "pipes_inv imgs (map pipe_update ps')"
    using pipes_inv_step assms(1) unfolding world_inv_def by blast
  ultimately show ?thesis
    using assms
    by (auto simp: play_frame_def world_inv_def Let_def split: sum.splits dest!: poll_events_Inr)
qed

lemma world_inv_frame:
  "world_inv imgs w \<Longrightarrow> sprite_frame imgs seed w es = Inr (w', cs) \<Longrightarrow> world_inv imgs w'"
  by (auto simp: sprite_frame_def split: phase.splits intro: world_inv_welcome world_inv_play)

lemma sprite_reachable_world_inv: "sprite_reachable imgs w \<Longrightarrow> world_inv imgs w"
  by (induction rule: sprite_reachable.induct) (auto intro: world_inv_init world_inv_frame)

lemma welcome_frame_Inl:
  assumes "world_inv imgs w"
  shows "welcome_frame imgs w es = Inl e \<longleftrightarrow> e = NameError \<and> QUIT \<in> set es"
proof -
  obtain gs' where "recycle_ground imgs (grounds w) = Inr gs'"
    using grounds_inv_step assms unfolding world_inv_def by blast
  then show ?thesis
    by (cases "QUIT \<in> set es")
       (auto simp: welcome_frame_def poll_events_QUIT poll_events_Inl split: sum.splits)
qed

lemma play_frame_Inl:
  assumes "world_inv imgs w"
  shows "play_frame imgs seed w es = Inl e \<longleftrightarrow> e = NameError \<and> QUIT \<in> set es"
proof -
  obtain gs' where "recycle_ground imgs (grounds w) = Inr gs'"
    using grounds_inv_step assms unfolding world_inv_def by blast
  moreover obtain ps' where "recycle_pipes imgs seed (pipe_group w) = Inr ps'"
    using pipes_inv_step assms unfolding world_inv_def by blast
  ultimately show ?thesis
    by (cases "QUIT \<in> set es")
       (auto simp: play_frame_def Let_def poll_events_QUIT poll_events_Inl split: sum.splits)
qed

lemma sprite_frame_Inl:
  "world_inv imgs w \<Longrightarrow> phase w \<noteq> Crashed \<Longrightarrow>
     sprite_frame imgs seed w es = Inl e \<longleftrightarrow> e = NameError \<and> QUIT \<in> set es"
  by (cases "phase w") (simp_all add: sprite_frame_def welcome_frame_Inl play_frame_Inl)

lemma play_frame_bird:
  assumes "play_frame imgs seed w es = Inr (w', cs)"
  shows "\<exists>b n. poll_events (the_bird w) es = Inr (b, n) \<and> the_bird w' = bird_update b
           \<and> take n cs = replicate n Wing"
  using assms by (auto simp: play_frame_def Let_def split: sum.splits)

lemma play_frame_cues:
  assumes "play_frame imgs seed w es = Inr (w', cs)"
  shows "filter (\<lambda>c. c = Wing) cs = replicate (length (filter is_flap_event es)) Wing"
  using assms
  by (auto simp: play_frame_def Let_def split: sum.splits dest!: poll_events_Inr)

text \<open>The loaded images have their opaque pixels inside the size the game scales them to.\<close>

definition surface_inside :: "surface \<Rightarrow> int \<Rightarrow> int \<Rightarrow> bool" where
  "surface_inside img w h \<longleftrightarrow>
     list_all (\<lambda>(x, y). 0 \<le> x \<and> x < w \<and> 0 \<le> y \<and> y < h) (surf_opaque img)"

definition images_ok :: "main_images \<Rightarrow> bool" where
  "images_ok imgs \<longleftrightarrow> surface_inside (pipe_green imgs) 80 500
     \<and> surface_inside (pipe_green_flipped imgs) 80 500 \<and> surface_inside (base_image imgs) 800 100"

lemma world_inv_obstacles_below:
  assumes "world_inv imgs w" and "images_ok imgs" and "s \<in> set (grounds w) \<union> set (pipe_group w)"
  shows "mask_inside s \<and> -350 \<le> rect_y s"
proof -
  obtain g1 g2 where gs: "grounds w = [g1, g2]" "ground_ok imgs g1" "ground_ok imgs g2"
    using assms(1) unfolding world_inv_def
    by (cases "(imgs, grounds w)" rule: grounds_inv.cases) auto
  obtain b1 t1 b2 t2 where ps: "pipe_group w = [b1, t1, b2, t2]" "pair_ok imgs b1 t1" "pair_ok imgs b2 t2"
    using assms(1) unfolding world_inv_def
    by (cases "(imgs, pipe_group w)" rule: pipes_inv.cases) auto
  show ?thesis
    using assms(2,3) gs ps
    by (auto simp: images_ok_def surface_inside_def mask_inside_def ground_ok_def pair_ok_def)
qed

end
