(* ===== verification/Dict_Game.thy ===== *)
theory Dict_Game
  imports Collision Scroll
begin

text \<open>
  The game loop of the dictionary game, \<open>src/unnamed/part_000\<close>. The program
  (lines 155--184) alternates \<open>welcomeScreen()\<close> (lines 18--37), which waits for a flap
  key, and \<open>mainGame()\<close> (lines 38--125), which runs frames until \<open>isCollide\<close> reports
  a crash and then returns. A frame of \<open>mainGame\<close> polls the events, tests the collision,
  counts the score, applies gravity, moves, spawns and prunes the pipes, raises the
  difficulty counter \<open>gap\<close> and scrolls the background. The state of a round is the
  record \<open>dict_state\<close> of \<open>mainGame\<close>'s locals; the program's states are reachable by an
  inductive relation, and the round invariant (velocity bound, difficulty bound, aligned pipe
  lists, pipe openings) is proved by rule induction.
\<close>

section \<open>State and frames\<close>

record dict_state =
  score :: nat
  playerx :: int
  the_player :: player
  upperPipes :: "pipe_dict list"
  lowerPipes :: "pipe_dict list"
  gap :: real
  bg :: "int \<times> int"

datatype dict_outcome = Running dict_state | RoundOver | Exit

text \<open>
  Lines 65--73: \<open>QUIT\<close> or Escape leaves the program (\<open>None\<close>); a flap key is accepted
  while the player is below the top of the screen. The count is that of the wing sounds.
\<close>

fun dict_events :: "player \<Rightarrow> event list \<Rightarrow> (player \<times> nat) option" where
  "dict_events p [] = Some (p, 0)"
| "dict_events p (QUIT # es) = None"
| "dict_events p (KEYDOWN k # es) =
     (if k = K_ESCAPE then None
      else if flap_key k \<and> flap_accepted p
      then map_option (\<lambda>(p', n). (p', Suc n)) (dict_events (player_flap p) es)
      else dict_events p es)"
| "dict_events p (OTHER_EVENT # es) = dict_events p es"

text \<open>Lines 78--84: a pipe scores while its midpoint is in a 4-pixel window behind the player's.\<close>

definition score_window :: "sprite_sizes \<Rightarrow> int \<Rightarrow> pipe_dict \<Rightarrow> bool" where
  "score_window sz x p \<longleftrightarrow>
     (let playerMidPos = of_int x + of_int (player_w sz) / 2;
          pipeMidPos = px p + of_int (pipe_w sz) / 2
      in pipeMidPos \<le> playerMidPos \<and> playerMidPos < pipeMidPos + 4)"

definition score_gain :: "sprite_sizes \<Rightarrow> int \<Rightarrow> pipe_dict list \<Rightarrow> nat" where
  "score_gain sz x us = length (filter (score_window sz x) us)"

text \<open>
  Lines 79--84 as written: the loop over \<open>upperPipes\<close> adds one to the score and plays
  the point sound for each pipe in the window. The frame below uses its closed form
  \<open>score_gain\<close>; the two are proved equal.
\<close>

fun score_loop :: "sprite_sizes \<Rightarrow> int \<Rightarrow> nat \<times> cue list \<Rightarrow> pipe_dict list \<Rightarrow> nat \<times> cue list" where
  "score_loop sz x0 acc [] = acc"
| "score_loop sz x0 (sc, cues) (pipe # ps) =
     score_loop sz x0 (if score_window sz x0 pipe then (sc + 1, cues @ [Point]) else (sc, cues)) ps"

text \<open>Lines 39--63: the locals at the start of a round, two pipe pairs from \<open>getRandomPipe(0)\<close>.\<close>

definition mainGame_init :: "sprite_sizes \<Rightarrow> int \<Rightarrow> int \<Rightarrow> py_error + dict_state" where
  "mainGame_init sz s1 s2 =
     (case getRandomPipe sz 0 s1 of
        Inl e \<Rightarrow> Inl e
      | Inr (u1, l1) \<Rightarrow>
          (case getRandomPipe sz 0 s2 of
             Inl e \<Rightarrow> Inl e
           | Inr (u2, l2) \<Rightarrow>
               Inr \<lparr>score = 0, playerx = py_int (of_int SCREENWIDTH / 5), the_player = player_init,
                    upperPipes = [\<lparr>px = of_int SCREENWIDTH + 200, py = py u1\<rparr>,
                                  \<lparr>px = of_int SCREENWIDTH + 200 + of_int SCREENWIDTH / 2, py = py u2\<rparr>],
                    lowerPipes = [\<lparr>px = of_int SCREENWIDTH + 200, py = py l1\<rparr>,
                                  \<lparr>px = of_int SCREENWIDTH + 200 + of_int SCREENWIDTH / 2, py = py l2\<rparr>],
                    gap = 0, bg = initial_background sz\<rparr>))"

text \<open>Lines 114--115: the difficulty counter grows by 0.09 while it is below 55.\<close>

definition next_gap :: "real \<Rightarrow> real" where
  "next_gap g = (if g < 55 then g + 9 / 100 else g)"

text \<open>One pass of the loop of \<open>mainGame\<close> (lines 64--125).\<close>

definition mainGame_frame ::
  "sprite_sizes \<Rightarrow> int \<Rightarrow> dict_state \<Rightarrow> event list \<Rightarrow> py_error + dict_outcome \<times> cue list" where
  "mainGame_frame sz seed s es =
     (case dict_events (the_player s) es of
        None \<Rightarrow> Inr (Exit, [])
      | Some (p, n) \<Rightarrow>
          (case isCollide sz (playerx s) (playery p) (upperPipes s) (lowerPipes s) of
             Inl e \<Rightarrow> Inl e
           | Inr True \<Rightarrow> Inr (RoundOver, replicate n Wing @ [Hit])
           | Inr False \<Rightarrow>
               (let k = score_gain sz (playerx s) (upperPipes s);
                    p' = player_fall sz p;
                    (us, ls) = move_pipes (upperPipes s) (lowerPipes s)
                in case spawn_prune sz (gap s) seed us ls of
                     Inl e \<Rightarrow> Inl e
                   | Inr (us', ls') \<Rightarrow>
                       Inr (Running (s\<lparr>score := score s + k, the_player := p',
                                      upperPipes := us', lowerPipes := ls',
                                      gap := next_gap (gap s),
                                      bg := scroll_background sz (bg s)\<rparr>),
                            replicate n Wing @ replicate k Point))))"

text \<open>
  The event loop of \<open>welcomeScreen\<close> (lines 25--37): it returns at the first flap key and
  leaves the program at the first \<open>QUIT\<close> or Escape, whichever comes first.
\<close>

datatype welcome_result = Wait | Start | Leave

fun welcome_events :: "event list \<Rightarrow> welcome_result" where
  "welcome_events [] = Wait"
| "welcome_events (QUIT # es) = Leave"
| "welcome_events (KEYDOWN k # es) =
     (if k = K_ESCAPE then Leave else if flap_key k then Start else welcome_events es)"
| "welcome_events (OTHER_EVENT # es) = welcome_events es"

datatype dict_program = AtWelcome | InGame dict_state

text \<open>Lines 182--184: \<open>while True: welcomeScreen(); mainGame()\<close>.\<close>

inductive dict_reachable :: "sprite_sizes \<Rightarrow> dict_program \<Rightarrow> bool" for sz where
  start: "dict_reachable sz AtWelcome"
| new_round: "dict_reachable sz AtWelcome \<Longrightarrow> welcome_events es = Start \<Longrightarrow>
     mainGame_init sz s1 s2 = Inr s \<Longrightarrow> dict_reachable sz (InGame s)"
| frame: "dict_reachable sz (InGame s) \<Longrightarrow> mainGame_frame sz seed s es = Inr (Running s', cs) \<Longrightarrow>
     dict_reachable sz (InGame s')"
| round_over: "dict_reachable sz (InGame s) \<Longrightarrow> mainGame_frame sz seed s es = Inr (RoundOver, cs) \<Longrightarrow>
     dict_reachable sz AtWelcome"

section \<open>The round invariant\<close>

text \<open>
  Every pair of pipes at the same index shares its x and leaves an opening wider than
  \<open>SCREENHEIGHT / 3 - 55.09\<close>, the opening at the largest value \<open>gap\<close> reaches.
\<close>

definition pipe_opening :: "sprite_sizes \<Rightarrow> pipe_dict \<Rightarrow> pipe_dict \<Rightarrow> real" where
  "pipe_opening sz u l = py l - (py u + of_int (pipe_h sz))"

definition openings_ok :: "sprite_sizes \<Rightarrow> pipe_dict list \<Rightarrow> pipe_dict list \<Rightarrow> bool" where
  "openings_ok sz us ls \<longleftrightarrow>
     list_all2 (\<lambda>u l. px u = px l \<and> of_int SCREENHEIGHT / 3 - 5509 / 100 < pipe_opening sz u l) us ls"

definition gap_ok :: "real \<Rightarrow> bool" where
  "gap_ok g \<longleftrightarrow> 0 \<le> g \<and> g < 5509 / 100"

definition dict_inv :: "sprite_sizes \<Rightarrow> dict_state \<Rightarrow> bool" where
  "dict_inv sz s \<longleftrightarrow> playerx s = 115 \<and> vel_bounded (the_player s) \<and> gap_ok (gap s)
     \<and> openings_ok sz (upperPipes s) (lowerPipes s)"

lemma gap_ok_next: "gap_ok g \<Longrightarrow> gap_ok (next_gap g)"
  by (simp add: gap_ok_def next_gap_def)

lemma getRandomPipe_opening:
  "getRandomPipe sz g seed = Inr (u, l) \<Longrightarrow>
     pipe_opening sz u l = of_int SCREENHEIGHT / 3 - g \<and> px u = px l"
  by (erule getRandomPipe_Inr) (simp add: pipe_opening_def)

lemma openings_ok_move:
  assumes "openings_ok sz us ls" and "move_pipes us ls = (us', ls')"
  shows "openings_ok sz us' ls'"
proof -
  have "length us = length ls"
    using assms(1) by (simp add: openings_ok_def list_all2_lengthD)
  then have "us' = map move_pipe us" and "ls' = map move_pipe ls"
    using assms(2) move_pipes_eq by simp_all
  moreover have "py (move_pipe p) = py p" for p
    by (simp add: move_pipe_def)
  ultimately show ?thesis
    using assms(1) by (simp add: openings_ok_def pipe_opening_def list_all2_map1 list_all2_map2)
qed

lemma openings_ok_spawn:
  assumes "openings_ok sz us ls" and "gap_ok g" and "spawn_pipes sz g seed us ls = Inr (us', ls')"
  shows "openings_ok sz us' ls'"
proof (cases "getRandomPipe sz g seed")
  case (Inr ul)
  then obtain u l where r: "getRandomPipe sz g seed = Inr (u, l)" by (cases ul) auto
  have "px u = px l \<and> of_int SCREENHEIGHT / 3 - 5509 / 100 < pipe_opening sz u l"
    using getRandomPipe_opening [OF r] assms(2) by (simp add: gap_ok_def)
  then have "openings_ok sz (us @ [u]) (ls @ [l])"
    using assms(1) by (simp add: openings_ok_def list_all2_appendI)
  then show ?thesis
    using assms(1,3) r by (auto simp: spawn_pipes_def py_first_def split: list.splits if_splits)
next
  case (Inl e)
  then show ?thesis
    using assms(1,3) by (auto simp: spawn_pipes_def py_first_def split: list.splits if_splits)
qed

lemma openings_ok_prune:
  assumes "openings_ok sz us ls" and "prune_pipes sz us ls = Inr (us', ls')"
  shows "openings_ok sz us' ls'"
  using assms
  by (auto simp: prune_pipes_def py_first_def py_pop0_def openings_ok_def
           split: list.splits if_splits)

lemma openings_ok_spawn_prune:
  assumes "openings_ok sz us ls" and "gap_ok g" and "spawn_prune sz g seed us ls = Inr (us', ls')"
  shows "openings_ok sz us' ls'"
  using assms
  by (auto simp: spawn_prune_def split: sum.splits intro: openings_ok_prune openings_ok_spawn)

lemma dict_events_Some:
  "dict_events p es = Some (p', n) \<Longrightarrow> vel_bounded p \<Longrightarrow> vel_bounded p' \<and> playery p' = playery p"
proof (induction p es arbitrary: p' n rule: dict_events.induct)
  case (3 p k es)
  show ?case
  proof (cases "k = K_ESCAPE")
    case True
    with "3.prems" show ?thesis by simp
  next
    case esc: False
    show ?thesis
    proof (cases "flap_key k \<and> flap_accepted p")
      case True
      with esc "3.prems"(1) obtain m where r: "dict_events (player_flap p) es = Some (p', m)"
        by (cases "dict_events (player_flap p) es") auto
      from "3.IH"(1) [OF esc True r vel_bounded_flap [OF "3.prems"(2)]] show ?thesis by simp
    next
      case False
      with esc "3.prems"(1) have "dict_events p es = Some (p', n)" by simp
      then show ?thesis using "3.IH"(2) [OF esc False] "3.prems"(2) by blast
    qed
  qed
next
  case (1 p)
  then show ?case by simp
next
  case (2 p es)
  then show ?case by simp
next
  case (4 p es)
  from "4.prems"(1) have "dict_events p es = Some (p', n)" by simp
  then show ?case using "4.IH" "4.prems"(2) by blast
qed

lemma dict_inv_init: "mainGame_init sz s1 s2 = Inr s \<Longrightarrow> dict_inv sz s"
  by (auto simp: mainGame_init_def dict_inv_def openings_ok_def gap_ok_def vel_bounded_init
                 py_int_def game_consts pipe_opening_def split: sum.splits
           dest!: getRandomPipe_opening)

lemma dict_inv_frame:
  assumes "dict_inv sz s" and "mainGame_frame sz seed s es = Inr (Running s', cs)"
  shows "dict_inv sz s'"
proof -
  obtain p n where ev: "dict_events (the_player s) es = Some (p, n)"
    using assms(2) by (auto simp: mainGame_frame_def split: option.splits)
  obtain us ls where mv: "move_pipes (upperPipes s) (lowerPipes s) = (us, ls)"
    by fastforce
  obtain us' ls' where sp: "spawn_prune sz (gap s) seed us ls = Inr (us', ls')"
    and s': "s' = s\<lparr>score := score s + score_gain sz (playerx s) (upperPipes s),
                     the_player := player_fall sz p, upperPipes := us', lowerPipes := ls',
                     gap := next_gap (gap s), bg := scroll_background sz (bg s)\<rparr>"
    using assms(2) ev mv
    by (auto simp: mainGame_frame_def Let_def split: sum.splits bool.splits)
  have "vel_bounded p"
    using dict_events_Some [OF ev] assms(1) by (simp add: dict_inv_def)
  moreover have "openings_ok sz us ls"
    using assms(1) mv by (auto simp: dict_inv_def intro: openings_ok_move)
  ultimately show ?thesis
    using assms(1) s' openings_ok_spawn_prune [OF _ _ sp] vel_bounded_fall gap_ok_next
    by (simp add: dict_inv_def)
qed

definition program_inv :: "sprite_sizes \<Rightarrow> dict_program \<Rightarrow> bool" where
  "program_inv sz q = (case q of AtWelcome \<Rightarrow> True | InGame s \<Rightarrow> dict_inv sz s)"

lemma dict_reachable_inv: "dict_reachable sz q \<Longrightarrow> program_inv sz q"
  by (induction rule: dict_reachable.induct)
     (auto simp: program_inv_def intro: dict_inv_init dict_inv_frame)

section \<open>Errors of a frame\<close>

lemma isCollide_Inl: "isCollide sz x y us ls = Inl e \<Longrightarrow> e = TypeError"
  by (auto simp: isCollide_def Let_def split: if_splits)

lemma openings_ok_aligned: "openings_ok sz us ls \<Longrightarrow> pipes_aligned us ls"
  by (induction us arbitrary: ls)
     (auto simp: openings_ok_def pipes_aligned_def list_all2_Cons1)

lemma mainGame_frame_Inl:
  assumes "dict_inv sz s" and "mainGame_frame sz seed s es = Inl e"
  shows "e = TypeError \<or> e = IndexError \<and> upperPipes s = []
         \<or> getRandomPipe sz (gap s) seed = Inl e"
proof -
  obtain us ls where mv: "move_pipes (upperPipes s) (lowerPipes s) = (us, ls)"
    by fastforce
  have al: "pipes_aligned (upperPipes s) (lowerPipes s)"
    using assms(1) unfolding dict_inv_def by (blast intro: openings_ok_aligned)
  have "us = map move_pipe (upperPipes s)" and "pipes_aligned us ls"
    using move_pipes_eq [OF pipes_aligned_length [OF al]] mv move_pipes_aligned [OF al mv]
    by simp_all
  then show ?thesis
    using assms(2) mv
    by (auto simp: mainGame_frame_def Let_def split: option.splits sum.splits bool.splits
             dest: isCollide_Inl spawn_prune_Inl_cause)
qed

section \<open>The background over a round\<close>

lemma mainGame_frame_pipes:
  assumes "dict_inv sz s" and "mainGame_frame sz seed s es = Inr (Running s', cs)"
  shows "playerx s' = playerx s
         \<and> spawn_prune sz (gap s) seed (map move_pipe (upperPipes s)) (map move_pipe (lowerPipes s))
             = Inr (upperPipes s', lowerPipes s')"
proof -
  have "openings_ok sz (upperPipes s) (lowerPipes s)" using assms(1) by (simp add: dict_inv_def)
  then have "length (upperPipes s) = length (lowerPipes s)"
    by (rule pipes_aligned_length [OF openings_ok_aligned])
  then have "move_pipes (upperPipes s) (lowerPipes s) = (map move_pipe (upperPipes s), map move_pipe (lowerPipes s))"
    by (rule move_pipes_eq)
  then show ?thesis using assms(2)
    by (auto simp: mainGame_frame_def Let_def split: option.splits sum.splits bool.splits prod.splits)
qed

lemma mainGame_frame_bg:
  "mainGame_frame sz seed s es = Inr (Running s', cs) \<Longrightarrow> bg s' = scroll_background sz (bg s)"
  by (auto simp: mainGame_frame_def Let_def split: option.splits sum.splits bool.splits prod.splits)

lemma dict_reachable_bg:
  assumes "dict_reachable sz q" and "0 < background_w sz"
  shows "case q of AtWelcome \<Rightarrow> True | InGame s \<Rightarrow> bg_inv sz (bg s)"
  using assms(1)
proof (induction rule: dict_reachable.induct)
  case (new_round es s1 s2 s)
  then show ?case
    using bg_inv_initial [OF assms(2)]
    by (auto simp: mainGame_init_def split: sum.splits)
next
  case (frame s seed es s' cs)
  then show ?case
    using mainGame_frame_bg [OF frame.hyps(2)] by (simp add: bg_inv_scroll [OF assms(2)])
qed simp_all

section \<open>The score window\<close>

text \<open>
  The distance of the player's midpoint behind the pipe's midpoint; it grows by 3 each
  frame as the pipe moves left, and the pipe scores while it lies in \<open>[0, 4)\<close>.
\<close>

definition mid_distance :: "sprite_sizes \<Rightarrow> int \<Rightarrow> pipe_dict \<Rightarrow> real" where
  "mid_distance sz x p = (of_int x + of_int (player_w sz) / 2) - (px p + of_int (pipe_w sz) / 2)"

text \<open>The loop of lines 79--84 as written and its closed form agree.\<close>

lemma score_loop_eq:
  "score_loop sz x (sc, cues) us = (sc + score_gain sz x us, cues @ replicate (score_gain sz x us) Point)"
  by (induction us arbitrary: sc cues) (simp_all add: score_gain_def replicate_app_Cons_same)

lemma score_window_distance:
  "score_window sz x p \<longleftrightarrow> 0 \<le> mid_distance sz x p \<and> mid_distance sz x p < 4"
  by (simp add: score_window_def mid_distance_def Let_def) linarith

lemma mid_distance_move: "mid_distance sz x (move_pipe p) = mid_distance sz x p + 3"
  by (simp add: mid_distance_def)

lemma mid_distance_funpow:
  "mid_distance sz x ((move_pipe ^^ k) p) = mid_distance sz x p + 3 * of_nat k"
  by (induction k) (simp_all add: mid_distance_move algebra_simps)

end
