(* ===== verification/Dict_Rounds.thy ===== *)
theory Dict_Rounds
  imports Dict_Game
begin

text \<open>
  Rounds of the dictionary game without input. \<open>idle_frames\<close> runs the loop of
  \<open>mainGame\<close> (\<open>src/unnamed/part_000\<close>, lines 64--125) for at most a given number of
  frames in which \<open>pygame.event.get()\<close> returns nothing, each frame with its own seed for
  \<open>random.randrange\<close>; the fuel bounds the number of frames, and a result
  \<open>Running s\<close> means the round is still on when the fuel runs out. The potential
  \<open>idle_potential\<close> (velocity still to gain and height still to fall) drops by at least
  \<open>4/5\<close> in every frame that does not end the round when the player is at most 27 pixels
  tall, so such a round ends within a bounded number of frames.
\<close>

section \<open>Definitions\<close>

text \<open>The loop of \<open>mainGame\<close> with no events, for at most \<open>n\<close> frames.\<close>

fun idle_frames :: "sprite_sizes \<Rightarrow> (nat \<Rightarrow> int) \<Rightarrow> nat \<Rightarrow> dict_state \<Rightarrow> py_error + dict_outcome" where
  "idle_frames sz seeds 0 s = Inr (Running s)"
| "idle_frames sz seeds (Suc n) s =
     (case mainGame_frame sz (seeds n) s [] of
        Inl e \<Rightarrow> Inl e
      | Inr (Running s', _) \<Rightarrow> idle_frames sz seeds n s'
      | Inr (r, _) \<Rightarrow> Inr r)"

text \<open>The potential of a round without input.\<close>

definition idle_potential :: "player \<Rightarrow> real" where
  "idle_potential p = 20 * (10 - of_int (playerVelY p)) + (of_int SCREENHEIGHT - 130 - num_val (playery p))"

section \<open>Properties\<close>

lemma mainGame_frame_player:
  "mainGame_frame sz seed s es = Inr (Running s', cs) \<Longrightarrow>
     \<exists>p n. dict_events (the_player s) es = Some (p, n) \<and> the_player s' = player_fall sz p"
  by (auto simp: mainGame_frame_def Let_def split: option.splits sum.splits bool.splits prod.splits)

text \<open>Between two frames the flap flag is always down: \<open>player_fall\<close> resets it.\<close>

lemma dict_reachable_not_flapped:
  "dict_reachable sz q \<Longrightarrow> (case q of AtWelcome \<Rightarrow> True | InGame s \<Rightarrow> \<not> playerFlapped (the_player s))"
proof (induction rule: dict_reachable.induct)
  case (new_round es s1 s2 s)
  then show ?case by (auto simp: mainGame_init_def player_init_def split: sum.splits)
next
  case (frame s seed es s' cs)
  then show ?case using mainGame_frame_player [OF frame.hyps(2)] by auto
qed simp_all

lemma idle_potential_fall:
  assumes "vel_bounded p" and "\<not> playerFlapped p" and "num_val (playery p) \<le> of_int SCREENHEIGHT - 130"
    and "player_h sz \<le> 27"
  shows "idle_potential (player_fall sz p) \<le> idle_potential p - 4 / 5"
  using assms by (auto simp: idle_potential_def vel_bounded_def game_consts min_def)

lemma idle_frame_running:
  assumes "mainGame_frame sz seed s [] = Inr (Running s', cs)"
  shows "0 \<le> num_val (playery (the_player s)) \<and> num_val (playery (the_player s)) \<le> of_int SCREENHEIGHT - 130
         \<and> the_player s' = player_fall sz (the_player s)"
proof -
  have "isCollide sz (playerx s) (playery (the_player s)) (upperPipes s) (lowerPipes s) = Inr False"
    using assms by (auto simp: mainGame_frame_def split: sum.splits bool.splits)
  then have "\<not> (of_int SCREENHEIGHT - 130 < num_val (playery (the_player s)) \<or> num_val (playery (the_player s)) < 0)"
    using isCollide_bounds by fastforce
  moreover have "the_player s' = player_fall sz (the_player s)"
    using assms by (auto simp: mainGame_frame_def Let_def split: sum.splits bool.splits prod.splits)
  ultimately show ?thesis by simp
qed

lemma idle_frame_crash:
  "of_int SCREENHEIGHT - 130 < num_val (playery (the_player s)) \<or> num_val (playery (the_player s)) < 0 \<Longrightarrow>
     idle_frames sz seeds (Suc n) s = Inr RoundOver"
  by (simp add: mainGame_frame_def isCollide_bounds)

lemma idle_frames_end:
  assumes "dict_inv sz s" and "\<not> playerFlapped (the_player s)" and "player_h sz \<le> 27"
    and "max 0 (idle_potential (the_player s)) + 4 / 5 < 4 / 5 * of_nat n"
  shows "idle_frames sz seeds n s = Inr RoundOver \<or> (\<exists>e. idle_frames sz seeds n s = Inl e)"
  using assms
proof (induction n arbitrary: s)
  case 0
  then show ?case by simp
next
  case (Suc n)
  show ?case
  proof (cases "mainGame_frame sz (seeds n) s []")
    case (Inl e)
    then show ?thesis by simp
  next
    case (Inr r)
    obtain out cs where r: "r = (out, cs)" by (cases r)
    show ?thesis
    proof (cases out)
      case (Running s')
      have f: "mainGame_frame sz (seeds n) s [] = Inr (Running s', cs)" using Inr r Running by simp
      have b: "0 \<le> num_val (playery (the_player s))" "num_val (playery (the_player s)) \<le> of_int SCREENHEIGHT - 130"
        and p: "the_player s' = player_fall sz (the_player s)"
        using idle_frame_running [OF f] by simp_all
      have i': "dict_inv sz s'" using dict_inv_frame [OF Suc.prems(1) f] .
      have nf: "\<not> playerFlapped (the_player s')" using p by simp
      have v: "vel_bounded (the_player s)" using Suc.prems(1) by (simp add: dict_inv_def)
      have dec: "idle_potential (the_player s') \<le> idle_potential (the_player s) - 4 / 5"
        using idle_potential_fall [OF v Suc.prems(2) b(2) Suc.prems(3)] p by simp
      have nn: "0 \<le> idle_potential (the_player s)"
        using v b by (simp add: idle_potential_def vel_bounded_def)
      have lt: "idle_potential (the_player s) < 4 / 5 * of_nat n"
        using Suc.prems(4) nn by simp
      have rec: "idle_frames sz seeds (Suc n) s = idle_frames sz seeds n s'" using f by simp
      show ?thesis
      proof (cases "0 \<le> idle_potential (the_player s')")
        case True
        then have "max 0 (idle_potential (the_player s')) + 4 / 5 < 4 / 5 * of_nat n"
          using dec lt by simp
        then show ?thesis using Suc.IH [OF i' nf Suc.prems(3)] rec by simp
      next
        case False
        have "vel_bounded (the_player s')" using i' by (simp add: dict_inv_def)
        then have "of_int SCREENHEIGHT - 130 < num_val (playery (the_player s'))"
          using False by (simp add: idle_potential_def vel_bounded_def)
        moreover obtain m where "n = Suc m" using lt nn by (cases n) auto
        ultimately show ?thesis using rec idle_frame_crash by simp
      qed
    next
      case RoundOver
      then show ?thesis using Inr r by simp
    next
      case Exit
      then show ?thesis using Inr r
        by (auto simp: mainGame_frame_def Let_def split: sum.splits bool.splits prod.splits)
    qed
  qed
qed
end
