(* ===== verification/Spec2Isabelle.thy ===== *)
theory Spec2Isabelle
  imports Sprite_Game Dict_Game Score_Display Dict_Rounds
begin

text \<open>
  \<^bold>\<open>A verification library for the Flappy Bird repository.\<close>

  The repository holds two independent games built on pygame. \<open>src/main.py\<close> (the
  \<^emph>\<open>sprite game\<close>) models the bird, the pipes and the ground as pygame sprites with
  integer rectangles and pixel masks; \<open>src/unnamed/part_000\<close> (\<open>flappy bird.py\<close>, the
  \<^emph>\<open>dictionary game\<close>) keeps the player in local variables of \<open>mainGame\<close> and the
  pipes as lists of dicts. Both follow the same per-frame pipeline: poll input, flap, apply
  gravity, scroll the world, recycle obstacles, test collisions, count the score. Image
  loading, drawing, sound playback and frame timing are I/O: the sizes and opaque pixels of
  the loaded images are parameters, the random draws are seeds, the sound cues and the digit
  blits of the score are returned as values.

  Theories, in import order:
  \<^item> \<open>Prelude\<close>: Python's errors (\<open>py_error\<close>), numbers whose int/float type matters
    (\<open>py_num\<close>), the truncation of \<open>int()\<close> and of pygame's \<open>Rect\<close> (\<open>py_int\<close>),
    \<open>random.randrange\<close>/\<open>randint\<close> on a seed, \<open>xs[0]\<close>, \<open>xs.pop(0)\<close>, tuple
    indexing, \<open>str\<close> on an int and \<open>int\<close> on a digit.
  \<^item> \<open>Game_Config\<close>: the constants of both games, the \<open>sprite\<close> record (rectangle and
    mask), the loaded images, input events and sound cues.
  \<^item> \<open>Physics\<close>: the class \<open>Bird\<close> of \<open>main.py\<close> (\<open>bird_update\<close>, \<open>bird_bump\<close>,
    \<open>bird_begin\<close>) and the player of \<open>mainGame\<close> (\<open>player_flap\<close>, lines 69--73;
    \<open>player_fall\<close>, lines 85--90), with the velocity bound and the ground clamp.
  \<^item> \<open>Obstacles\<close>: \<open>Pipe\<close>, \<open>get_random_pipes\<close> and the pipe recycling of \<open>main.py\<close>
    (\<open>recycle_pipes\<close>) with the invariant \<open>pipes_inv\<close> (two well-formed pairs whose
    spacing is tracked modulo \<open>GAME_SPEED\<close>); \<open>getRandomPipe\<close>, the pipe moves and
    \<open>spawn_pipes\<close>/\<open>prune_pipes\<close> of \<open>mainGame\<close> (lines 91--100, 143--153).
  \<^item> \<open>Scroll\<close>: the \<open>Ground\<close> group of \<open>main.py\<close> with the invariant \<open>grounds_inv\<close>
    (two segments covering the screen), the background pair of \<open>mainGame\<close> (lines 117--124)
    with its invariant \<open>bg_inv\<close> and its abstract view \<open>bg_view\<close>, the visible offset.
  \<^item> \<open>Collision\<close>: pygame's \<open>collide_mask\<close> as \<open>main.py\<close> calls it, and
    \<open>isCollide\<close> of \<open>part_000\<close> with its \<open>TypeError\<close> path.
  \<^item> \<open>Sprite_Game\<close>: the module-level loops of \<open>main.py\<close> as frame functions
    (\<open>welcome_frame\<close>, \<open>play_frame\<close>), the reachable worlds (\<open>sprite_reachable\<close>, an
    inductive predicate) and the world invariant, by rule induction.
  \<^item> \<open>Dict_Game\<close>: the locals of \<open>mainGame\<close> as the record \<open>dict_state\<close>,
    \<open>mainGame_init\<close> (lines 39--63), one pass of its loop \<open>mainGame_frame\<close>
    (lines 64--125, composing \<open>dict_events\<close>, \<open>isCollide\<close>, the score window,
    \<open>player_fall\<close>, the pipe moves, \<open>next_gap\<close> and the background scroll), the score
    loop as written (\<open>score_loop\<close>) and in closed form (\<open>score_gain\<close>), the event loop
    of \<open>welcomeScreen\<close>, and the \<open>__main__\<close> loop as the inductive \<open>dict_reachable\<close>
    with the round invariant \<open>dict_inv\<close> proved by rule induction.
  \<^item> \<open>Score_Display\<close>: lines 106--113, the digits of \<open>str(score)\<close>, their total width
    and the row of digit blits (the ten digit images are always loaded, lines 159--170, so
    the display never raises).
  \<^item> \<open>Dict_Rounds\<close>: \<open>idle_frames\<close>, the loop of \<open>mainGame\<close> run for at most a given
    number of frames without input, and the potential that shows such a round ends.
  \<^item> this theory: concrete witnesses and the claims about the whole program.

  The claims. C1--C8 are about the sprite game: the pipe pairs and their gap, the frame
  errors (\<open>NameError\<close> on \<open>QUIT\<close>), the bird's column and fixed mask, the ground coverage,
  the flap, the closed form of a fall from rest under pygame's truncation, and the missing
  ceiling. C9--C24 are about the rounds of the dictionary game: the round invariant (pipe
  openings, velocity and difficulty bounds), the geometry and the \<open>ValueError\<close> of
  \<open>getRandomPipe\<close>, the error paths of a frame, the \<open>TypeError\<close> of \<open>range(playery)\<close>,
  the int/float type of \<open>playery\<close>, the flap and the ground clamp, a player resting on the
  ground undetected by the ground test, the score window (counted twice when the distance is
  in \<open>[0, 1)\<close>, never three times, never skipped) and the double count inside a frame of
  the game, the background coverage and the point sounds. C25 states that the score display
  draws the score's digits, reading back as the score, as one centred row. C26--C27 prove that
  the background pair refines one tiling scrolled one pixel per frame, and C28 that a round
  without input ends. C29--C33 characterise the difficulty counter (closed form, saturating
  at 55.08), the start of a round, the two event loops and the spawn band (passed in exactly
  one frame).

  Modelling choices. Python floats are reals: every float of \<open>main.py\<close> is a multiple of
  0.5 and exact in binary; \<open>GROUNDY\<close> of \<open>part_000\<close> is taken as 408.8, and the 0.09
  steps of \<open>gap\<close> as exact. pygame stores a float into a \<open>Rect\<close> coordinate by
  truncation towards zero, and \<open>py_int\<close> does so. The pygame group is the list of its
  sprites in insertion order, as \<open>Group.sprites()\<close> returns them. Every frame is a total
  function; the games' \<open>while True\<close> loops are unbounded by design and are modelled as the
  reachable states of one frame. The only fuel is that of \<open>idle_frames\<close>: 1230 frames are
  enough because the potential \<open>20 * (10 - playerVelY) + (381 - playery)\<close> is at most 981
  while the round is on and drops by at least 4/5 per frame.

  Not modelled: loading images and sounds, \<open>pygame.init\<close> and the display (I/O; their
  results are the parameters \<open>main_images\<close>, \<open>sprite_sizes\<close> and \<open>numbers\<close>), the
  blits other than the score digits, \<open>display.update\<close>, \<open>clock.tick\<close> and
  \<open>time.sleep\<close>, which change no game state, and the frames \<open>welcomeScreen\<close> draws
  (its positions \<open>playery\<close>, \<open>messagex\<close>, \<open>messagey\<close> are only drawn).
\<close>

section \<open>Concrete images for the witnesses\<close>

definition demo_surface :: "int \<Rightarrow> int \<Rightarrow> surface" where
  "demo_surface w h = \<lparr>surf_w = w, surf_h = h, surf_opaque = [(0, 0), (w - 1, h - 1)]\<rparr>"

definition demo_images :: main_images where
  "demo_images = \<lparr>bird_upflap = demo_surface 34 24, pipe_green = demo_surface 80 500,
     pipe_green_flipped = demo_surface 80 500, base_image = demo_surface 800 100\<rparr>"

definition demo_world :: world where
  "demo_world = projr (world_init demo_images 0 0)"

definition demo_sizes :: sprite_sizes where
  "demo_sizes = \<lparr>player_w = 34, player_h = 24, pipe_w = 52, pipe_h = 320, base_h = 112,
                  background_w = 600\<rparr>"

definition demo_state :: dict_state where
  "demo_state = projr (mainGame_init demo_sizes 0 0)"

definition demo_float_state :: dict_state where
  "demo_float_state = demo_state\<lparr>the_player := player_init\<lparr>playery := PFloat (401 / 2)\<rparr>,
     upperPipes := [\<lparr>px = 115, py = -100\<rparr>], lowerPipes := [\<lparr>px = 115, py = 400\<rparr>]\<rparr>"

definition demo_pass_state :: dict_state where
  "demo_pass_state = demo_state\<lparr>the_player := player_init\<lparr>playery := PInt 250, playerVelY := 0\<rparr>,
     upperPipes := [\<lparr>px = 106, py = -127\<rparr>], lowerPipes := [\<lparr>px = 106, py = 363\<rparr>]\<rparr>"

definition demo_numbers :: "int list" where
  "demo_numbers = [24, 16, 24, 24, 24, 24, 24, 24, 24, 24]"

lemmas demo_eval = demo_world_def world_init_def initial_pipes_def get_random_pipes_def
  py_randint_def py_randrange_def demo_images_def demo_surface_def

lemma demo_world_init: "world_init demo_images 0 0 = Inr demo_world"
  by (simp add: demo_eval game_consts)

lemma demo_world_reachable: "sprite_reachable demo_images demo_world"
  by (rule sprite_reachable.init [OF demo_world_init])

lemma demo_world_phase: "phase demo_world = Welcome"
  by (simp add: demo_eval game_consts)

lemma demo_images_ok: "images_ok demo_images"
  by (simp add: images_ok_def surface_inside_def demo_images_def demo_surface_def)

lemmas demo_dict_eval = demo_state_def mainGame_init_def getRandomPipe_def py_randrange_def
  demo_sizes_def player_init_def initial_background_def

lemma demo_state_init: "mainGame_init demo_sizes 0 0 = Inr demo_state"
  by (simp add: demo_dict_eval Let_def game_consts py_int_def)

lemma demo_state_reachable: "dict_reachable demo_sizes (InGame demo_state)"
proof (rule dict_reachable.new_round [OF dict_reachable.start])
  show "welcome_events [KEYDOWN K_SPACE] = Start" by (simp add: flap_key_def)
  show "mainGame_init demo_sizes 0 0 = Inr demo_state" by (rule demo_state_init)
qed

lemma demo_float_state_inv: "dict_inv demo_sizes demo_float_state"
proof -
  have "dict_inv demo_sizes demo_state"
    using dict_reachable_inv [OF demo_state_reachable] by (simp add: program_inv_def)
  then show ?thesis
    by (simp add: dict_inv_def demo_float_state_def vel_bounded_def player_init_def
                  openings_ok_def pipe_opening_def demo_sizes_def game_consts)
qed

lemma demo_state_fields:
  "playerx demo_state = 115" "score demo_state = 0" "gap demo_state = 0"
  "bg demo_state = (0, 600)"
  by (simp_all add: demo_dict_eval Let_def game_consts py_int_def initial_background_def demo_sizes_def)

lemmas demo_frame_eval = mainGame_frame_def isCollide_def demo_pass_state_def demo_state_fields
  player_init_def demo_sizes_def Let_def game_consts score_gain_def score_window_def
  spawn_prune_def spawn_pipes_def prune_pipes_def player_fall_def py_min_def
  next_gap_def scroll_background_def py_first_def move_pipe_def

section \<open>The sprite game\<close>

text \<open>
  C1: In every reachable world of the sprite game the pipe group holds exactly two pipe
  pairs, each a bottom pipe followed by a top pipe at the same x with exactly
  \<open>PIPE_GAP\<close> pixels between the top pipe's lower edge and the bottom pipe's upper edge,
  and the older pair lies strictly left of the newer one.
\<close>

theorem sprite_pipe_pairs:
  assumes "sprite_reachable imgs w"
  shows "\<exists>b1 t1 b2 t2. pipe_group w = [b1, t1, b2, t2]
           \<and> rect_x t1 = rect_x b1 \<and> rect_x t2 = rect_x b2 \<and> rect_x b1 < rect_x b2
           \<and> rect_y b1 - (rect_y t1 + rect_h t1) = PIPE_GAP
           \<and> rect_y b2 - (rect_y t2 + rect_h t2) = PIPE_GAP"
proof -
  have "pipes_inv imgs (pipe_group w)"
    using sprite_reachable_world_inv [OF assms] by (simp add: world_inv_def)
  then obtain b1 t1 b2 t2 where "pipe_group w = [b1, t1, b2, t2]" "pair_ok imgs b1 t1"
    "pair_ok imgs b2 t2" "spacing_ok (rect_x b1) (rect_x b2)"
    by (cases "(imgs, pipe_group w)" rule: pipes_inv.cases) auto
  then show ?thesis
    by (auto simp: pair_ok_def PIPE_GAP_def dest: spacing_ok_sorted)
qed

theorem sprite_pipe_pairs_witness:
  "sprite_reachable demo_images demo_world
   \<and> (\<exists>b1 t1 b2 t2. pipe_group demo_world = [b1, t1, b2, t2]
        \<and> rect_x t1 = rect_x b1 \<and> rect_x t2 = rect_x b2 \<and> rect_x b1 < rect_x b2
        \<and> rect_y b1 - (rect_y t1 + rect_h t1) = PIPE_GAP
        \<and> rect_y b2 - (rect_y t2 + rect_h t2) = PIPE_GAP)"
  using demo_world_reachable sprite_pipe_pairs [OF demo_world_reachable] by blast

text \<open>
  C2: For every random draw, \<open>get_random_pipes\<close> returns a pair at the requested x whose
  bottom pipe's top lies between 300 and 500 and whose top pipe ends exactly \<open>PIPE_GAP\<close>
  pixels above it; it never raises.
\<close>

theorem get_random_pipes_gap:
  "\<exists>b t. get_random_pipes imgs xpos seed = Inr (b, t) \<and> rect_x b = xpos \<and> rect_x t = xpos
     \<and> rect_y b - (rect_y t + rect_h t) = PIPE_GAP \<and> 300 \<le> rect_y b \<and> rect_y b \<le> 500"
proof -
  obtain b t where bt: "get_random_pipes imgs xpos seed = Inr (b, t)"
    using get_random_pipes_total by blast
  with pair_ok_get_random_pipes [OF bt] show ?thesis
    by (auto simp: pair_ok_def PIPE_GAP_def)
qed

text \<open>
  C3: In a reachable world that has not crashed, a frame fails exactly when its events hold
  \<open>QUIT\<close>, and then with \<open>NameError\<close> (\<open>sys\<close> is never imported); recycling the
  ground and the pipes never raises \<open>IndexError\<close>.
\<close>

theorem sprite_frame_errors:
  assumes "sprite_reachable imgs w" and "phase w \<noteq> Crashed"
  shows "sprite_frame imgs seed w es = Inl e \<longleftrightarrow> e = NameError \<and> QUIT \<in> set es"
  using sprite_frame_Inl [OF sprite_reachable_world_inv [OF assms(1)] assms(2)] .

theorem sprite_frame_errors_witness:
  "sprite_reachable demo_images demo_world \<and> phase demo_world \<noteq> Crashed
   \<and> (sprite_frame demo_images 0 demo_world [QUIT] = Inl NameError
        \<longleftrightarrow> NameError = NameError \<and> QUIT \<in> set [QUIT])"
  using demo_world_reachable demo_world_phase
    sprite_frame_errors [OF demo_world_reachable, of 0 "[QUIT]" NameError]
  by simp

text \<open>
  C4: In every reachable world the bird stays in its spawn column \<open>x = 66\<close>, and its
  collision mask stays the mask of the first animation frame, whatever frame is shown.
\<close>

theorem sprite_bird_column_mask:
  assumes "sprite_reachable imgs w"
  shows "rect_x (the_bird w) = 66 \<and> mask (the_bird w) = surf_opaque (bird_upflap imgs)"
  using sprite_reachable_world_inv [OF assms] by (simp add: world_inv_def)

theorem sprite_bird_column_mask_witness:
  "sprite_reachable demo_images demo_world \<and> rect_x (the_bird demo_world) = 66
   \<and> mask (the_bird demo_world) = surf_opaque (bird_upflap demo_images)"
  using demo_world_reachable sprite_bird_column_mask [OF demo_world_reachable] by blast

text \<open>
  C5: In every reachable world there are exactly two ground segments and every column of
  the screen, \<open>0 \<le> x < SCREEN_WIDTH\<close>, lies on one of them.
\<close>

theorem sprite_ground_covers:
  assumes "sprite_reachable imgs w" and "0 \<le> x" and "x < SCREEN_WIDTH"
  shows "length (grounds w) = 2 \<and> (\<exists>g \<in> set (grounds w). rect_x g \<le> x \<and> x < rect_x g + rect_w g)"
proof -
  have gi: "grounds_inv imgs (grounds w)"
    using sprite_reachable_world_inv [OF assms(1)] by (simp add: world_inv_def)
  then have "length (grounds w) = 2"
    by (cases "(imgs, grounds w)" rule: grounds_inv.cases) auto
  with grounds_inv_cover [OF gi assms(2,3)] show ?thesis by blast
qed

theorem sprite_ground_covers_witness:
  "sprite_reachable demo_images demo_world \<and> 0 \<le> (399::int) \<and> 399 < SCREEN_WIDTH
   \<and> length (grounds demo_world) = 2
   \<and> (\<exists>g \<in> set (grounds demo_world). rect_x g \<le> 399 \<and> 399 < rect_x g + rect_w g)"
  using demo_world_reachable sprite_ground_covers [OF demo_world_reachable, of 399]
  by (simp add: SCREEN_WIDTH_def)

text \<open>
  C6: A game frame with at least one flap key sets the bird's speed to \<open>-BIRD_SPEED\<close>
  whatever it was, so after that frame's gravity it is \<open>-17.5\<close>; and the frame plays the
  wing sound exactly once per flap key.
\<close>

theorem play_frame_flap:
  assumes "play_frame imgs seed w es = Inr (w', cs)" and "list_ex is_flap_event es"
  shows "speed (the_bird w') = -35 / 2
         \<and> filter (\<lambda>c. c = Wing) cs = replicate (length (filter is_flap_event es)) Wing"
proof -
  obtain b n where p: "poll_events (the_bird w) es = Inr (b, n)" and b': "the_bird w' = bird_update b"
    using play_frame_bird [OF assms(1)] by blast
  have "0 < length (filter is_flap_event es)"
    using assms(2) by (simp add: list_ex_iff filter_empty_conv)
  with poll_events_Inr [OF p] have "speed b = -20" by simp
  with b' play_frame_cues [OF assms(1)] show ?thesis by simp
qed

theorem play_frame_flap_witness:
  "\<exists>w' cs. play_frame demo_images 0 demo_world [KEYDOWN K_SPACE] = Inr (w', cs)
     \<and> list_ex is_flap_event [KEYDOWN K_SPACE] \<and> speed (the_bird w') = -35 / 2
     \<and> filter (\<lambda>c. c = Wing) cs = replicate (length (filter is_flap_event [KEYDOWN K_SPACE])) Wing"
proof -
  have inv: "world_inv demo_images demo_world"
    by (rule sprite_reachable_world_inv [OF demo_world_reachable])
  obtain w' cs where r: "play_frame demo_images 0 demo_world [KEYDOWN K_SPACE] = Inr (w', cs)"
    using play_frame_Inl [OF inv, of 0 "[KEYDOWN K_SPACE]"]
    by (cases "play_frame demo_images 0 demo_world [KEYDOWN K_SPACE]") auto
  have f: "list_ex is_flap_event [KEYDOWN K_SPACE]"
    by (simp add: flap_key_def)
  show ?thesis using r f play_frame_flap [OF r f] by blast
qed

text \<open>
  C7: Falling from rest, the bird's integer position drifts above the exact physics: after
  \<open>n\<close> frames from speed 0 at a row \<open>y \<ge> 0\<close> its speed is \<open>2.5 n\<close>, as the spec says,
  but \<open>rect.y\<close> is \<open>y + 5 n (n + 1) / 4 - \<lceil>n / 2\<rceil> / 2\<close>, half a pixel short of the exact
  \<open>y + 2.5 (1 + ... + n)\<close> for every odd frame so far, because pygame truncates the
  fractional targets. After four frames this is 24, not the spec's 25.
\<close>

theorem bird_fall_truncation:
  assumes "speed b = 0" and "0 \<le> rect_y b"
  shows "speed ((bird_update ^^ n) b) = 5 / 2 * of_nat n
         \<and> 4 * rect_y ((bird_update ^^ n) b) = 4 * rect_y b + 5 * int (n * (n + 1)) - 2 * int ((n + 1) div 2)"
proof (induction n)
  case 0
  then show ?case using assms by simp
next
  case (Suc n)
  let ?y = "rect_y ((bird_update ^^ n) b)"
  have sp: "speed ((bird_update ^^ n) b) = 5 / 2 * of_nat n" using Suc by simp
  have eq: "4 * ?y = 4 * rect_y b + 5 * int (n * (n + 1)) - 2 * int ((n + 1) div 2)" using Suc by simp
  have "2 * ((n + 1) div 2) \<le> 5 * (n * (n + 1))"
  proof (cases n)
    case 0
    then show ?thesis by simp
  next
    case (Suc m)
    have "2 * ((n + 1) div 2) \<le> n + 1" by simp
    also have "n + 1 \<le> 5 * (n * (n + 1))" using Suc by simp
    finally show ?thesis .
  qed
  then have "int (2 * ((n + 1) div 2)) \<le> int (5 * (n * (n + 1)))" by (simp only: of_nat_le_iff)
  then have y0: "0 \<le> ?y" using eq assms(2) by linarith
  have arg: "of_int ?y + speed ((bird_update ^^ n) b) + 5 / 2 = of_int ?y + 5 / 2 * of_nat (Suc n)"
    using sp by (simp add: algebra_simps)
  have "rect_y ((bird_update ^^ Suc n) b) = py_int (of_int ?y + speed ((bird_update ^^ n) b) + 5 / 2)"
    by simp
  also have "\<dots> = py_int (of_int ?y + 5 / 2 * of_nat (Suc n))" by (simp only: arg)
  also have "\<dots> = ?y + int (5 * Suc n div 2)" by (rule py_int_nonneg_add_half [OF y0])
  finally have step: "rect_y ((bird_update ^^ Suc n) b) = ?y + int (5 * Suc n div 2)" .
  have a: "4 * int (5 * Suc n div 2) + 2 * int ((Suc n + 1) div 2) = 10 * int (Suc n) + 2 * int ((n + 1) div 2)"
    using arg_cong [OF five_halves_step [of n], of int] by simp
  have c: "int (Suc n * (Suc n + 1)) = int (n * (n + 1)) + 2 * int (Suc n)" by simp
  have "speed ((bird_update ^^ Suc n) b) = 5 / 2 * of_nat (Suc n)" using sp by (simp add: algebra_simps)
  then show ?case using step eq a c by linarith
qed
theorem bird_fall_truncation_witness:
  "speed (bird_init demo_images\<lparr>speed := 0, rect_y := 0\<rparr>) = 0
   \<and> 0 \<le> rect_y (bird_init demo_images\<lparr>speed := 0, rect_y := 0\<rparr>)
   \<and> speed ((bird_update ^^ 4) (bird_init demo_images\<lparr>speed := 0, rect_y := 0\<rparr>)) = 10
   \<and> rect_y ((bird_update ^^ 4) (bird_init demo_images\<lparr>speed := 0, rect_y := 0\<rparr>)) = 24"
  using bird_fall_truncation [of "bird_init demo_images\<lparr>speed := 0, rect_y := 0\<rparr>" 4] by simp

text \<open>
  C8: The sprite game has no ceiling: in a reachable world, a bird whose mask lies inside
  its rectangle and whose rectangle ends at or above \<open>y = -350\<close> (above every top pipe)
  collides with nothing, however far above the screen it is.
\<close>

theorem sprite_no_ceiling:
  assumes "sprite_reachable imgs w" and "images_ok imgs"
    and "mask_inside b" and "rect_y b + rect_h b \<le> -350"
  shows "\<not> bird_crashed b (grounds w) (pipe_group w)"
proof -
  have inv: "world_inv imgs w" by (rule sprite_reachable_world_inv [OF assms(1)])
  have "\<not> collide_mask b s" if "s \<in> set (grounds w) \<union> set (pipe_group w)" for s
  proof
    assume c: "collide_mask b s"
    from world_inv_obstacles_below [OF inv assms(2) that]
    have "mask_inside s" and "-350 \<le> rect_y s" by simp_all
    with collide_mask_rows [OF c assms(3)] assms(4) show False by simp
  qed
  then show ?thesis
    by (auto simp: bird_crashed_def groupcollide_any_def list_ex_iff)
qed

theorem sprite_no_ceiling_witness:
  "sprite_reachable demo_images demo_world \<and> images_ok demo_images
   \<and> mask_inside (bird_init demo_images\<lparr>rect_y := -1000\<rparr>)
   \<and> rect_y (bird_init demo_images\<lparr>rect_y := -1000\<rparr>) + rect_h (bird_init demo_images\<lparr>rect_y := -1000\<rparr>) \<le> -350
   \<and> \<not> bird_crashed (bird_init demo_images\<lparr>rect_y := -1000\<rparr>) (grounds demo_world) (pipe_group demo_world)"
proof -
  have m: "mask_inside (bird_init demo_images\<lparr>rect_y := -1000\<rparr>)"
    by (simp add: mask_inside_def bird_init_def demo_images_def demo_surface_def)
  have h: "rect_y (bird_init demo_images\<lparr>rect_y := -1000\<rparr>) + rect_h (bird_init demo_images\<lparr>rect_y := -1000\<rparr>) \<le> -350"
    by (simp add: bird_init_def demo_images_def demo_surface_def)
  show ?thesis
    using demo_world_reachable demo_images_ok m h
      sprite_no_ceiling [OF demo_world_reachable demo_images_ok m h]
    by blast
qed

section \<open>The dictionary game\<close>

text \<open>
  C9: In every reachable round of the dictionary game the upper and lower pipe lists have
  the same length, the pipes at each index share their x, and each such pair leaves an
  opening wider than \<open>SCREENHEIGHT / 3 - 55.09\<close> (about 115 pixels), whatever the
  random draws: the shrinking difficulty never closes the passage.
\<close>

theorem dict_pipe_openings:
  assumes "dict_reachable sz (InGame s)"
  shows "length (upperPipes s) = length (lowerPipes s)
     \<and> (\<forall>i < length (upperPipes s). px (upperPipes s ! i) = px (lowerPipes s ! i)
          \<and> of_int SCREENHEIGHT / 3 - 5509 / 100
              < py (lowerPipes s ! i) - (py (upperPipes s ! i) + of_int (pipe_h sz)))"
proof -
  have "openings_ok sz (upperPipes s) (lowerPipes s)"
    using dict_reachable_inv [OF assms] by (simp add: program_inv_def dict_inv_def)
  then show ?thesis
    by (simp add: openings_ok_def pipe_opening_def list_all2_conv_all_nth)
qed

theorem dict_pipe_openings_witness:
  "dict_reachable demo_sizes (InGame demo_state)
   \<and> length (upperPipes demo_state) = 2 \<and> length (lowerPipes demo_state) = 2
   \<and> px (upperPipes demo_state ! 1) = px (lowerPipes demo_state ! 1)
   \<and> of_int SCREENHEIGHT / 3 - 5509 / 100
       < py (lowerPipes demo_state ! 1) - (py (upperPipes demo_state ! 1) + of_int (pipe_h demo_sizes))"
proof -
  have l: "length (upperPipes demo_state) = 2"
    by (simp add: demo_dict_eval Let_def game_consts py_int_def)
  then show ?thesis
    using demo_state_reachable dict_pipe_openings [OF demo_state_reachable] by auto
qed

text \<open>
  C10: In every reachable round the player stays in column 115, its vertical velocity
  stays between \<open>-20\<close> and \<open>playerMaxVelY = 10\<close>, and the difficulty counter \<open>gap\<close>
  stays in \<open>[0, 55.09)\<close>.
\<close>

theorem dict_round_bounds:
  assumes "dict_reachable sz (InGame s)"
  shows "playerx s = 115 \<and> -20 \<le> playerVelY (the_player s) \<and> playerVelY (the_player s) \<le> 10
         \<and> 0 \<le> gap s \<and> gap s < 5509 / 100"
  using dict_reachable_inv [OF assms]
  by (simp add: program_inv_def dict_inv_def vel_bounded_def gap_ok_def)

theorem dict_round_bounds_witness:
  "dict_reachable demo_sizes (InGame demo_state) \<and> playerx demo_state = 115
   \<and> -20 \<le> playerVelY (the_player demo_state) \<and> playerVelY (the_player demo_state) \<le> 10
   \<and> 0 \<le> gap demo_state \<and> gap demo_state < 5509 / 100"
  using demo_state_reachable dict_round_bounds [OF demo_state_reachable] by blast

text \<open>
  C11: A pair drawn by \<open>getRandomPipe(gap)\<close> stands at \<open>x = SCREENWIDTH + 10\<close>, leaves an
  opening of exactly \<open>SCREENHEIGHT / 3 - gap\<close>, reaches at least the top of the screen, and
  the lower pipe's top lies more than a fifth of the opening above the base.
\<close>

theorem getRandomPipe_geometry:
  assumes "getRandomPipe sz g seed = Inr (u, l)"
  shows "px u = 588 \<and> px l = 588
         \<and> py l - (py u + of_int (pipe_h sz)) = of_int SCREENHEIGHT / 3 - g
         \<and> 0 \<le> py u + of_int (pipe_h sz)
         \<and> py l < of_int SCREENHEIGHT - of_int (base_h sz) - (of_int SCREENHEIGHT / 3 - g) / 5"
proof -
  let ?X = "of_int SCREENHEIGHT - of_int (base_h sz) - 6 / 5 * (of_int SCREENHEIGHT / 3 - g)"
  obtain r where r: "0 \<le> r" "r < py_int ?X" and l: "py l = of_int SCREENHEIGHT / 3 - g + of_int r"
    and u: "py u = - (of_int (pipe_h sz) - py l + (of_int SCREENHEIGHT / 3 - g))"
    and "px u = 588" "px l = 588"
    using getRandomPipe_Inr [OF assms] by metis
  have "0 \<le> ?X"
  proof (rule ccontr)
    assume "\<not> 0 \<le> ?X"
    then have "of_int (py_int ?X) < (1::real)" using py_int_neg [of ?X] by linarith
    with r show False by linarith
  qed
  then have "of_int r < ?X" using r py_int_nonneg [of ?X] by linarith
  then have "py l < of_int SCREENHEIGHT - of_int (base_h sz) - (of_int SCREENHEIGHT / 3 - g) / 5"
    using l by (simp add: field_simps)
  with l u \<open>px u = 588\<close> \<open>px l = 588\<close> r(1) show ?thesis by simp
qed

theorem getRandomPipe_geometry_witness:
  "getRandomPipe demo_sizes 0 0 = Inr (\<lparr>px = 588, py = -320\<rparr>, \<lparr>px = 588, py = 511 / 3\<rparr>)
   \<and> px \<lparr>px = 588, py = -320\<rparr> = (588::real) \<and> px \<lparr>px = 588, py = (511::real) / 3\<rparr> = 588
   \<and> py \<lparr>px = 588, py = (511::real) / 3\<rparr> - (py \<lparr>px = 588, py = -320\<rparr> + of_int (pipe_h demo_sizes))
       = of_int SCREENHEIGHT / 3 - 0
   \<and> 0 \<le> py \<lparr>px = 588, py = -320\<rparr> + of_int (pipe_h demo_sizes)
   \<and> py \<lparr>px = 588, py = (511::real) / 3\<rparr>
       < of_int SCREENHEIGHT - of_int (base_h demo_sizes) - (of_int SCREENHEIGHT / 3 - 0) / 5"
proof -
  have e: "getRandomPipe demo_sizes 0 0 = Inr (\<lparr>px = 588, py = -320\<rparr>, \<lparr>px = 588, py = 511 / 3\<rparr>)"
    by (simp add: getRandomPipe_def py_randrange_def demo_sizes_def Let_def game_consts py_int_def)
  show ?thesis using e getRandomPipe_geometry [OF e] by blast
qed

text \<open>
  C12: \<open>getRandomPipe\<close> raises \<open>ValueError\<close> exactly when the range of its
  \<open>randrange\<close> is empty, that is when \<open>int(SCREENHEIGHT - base - 1.2 * offset) \<le> 0\<close>;
  at any non-negative difficulty a base of at most 305 pixels never makes it raise.
\<close>

theorem getRandomPipe_errors:
  "(getRandomPipe sz g seed = Inl e \<longleftrightarrow>
      e = ValueError
      \<and> py_int (of_int SCREENHEIGHT - of_int (base_h sz) - 6 / 5 * (of_int SCREENHEIGHT / 3 - g)) \<le> 0)
   \<and> (0 \<le> g \<and> base_h sz \<le> 305 \<longrightarrow> (\<exists>u l. getRandomPipe sz g seed = Inr (u, l)))"
  using getRandomPipe_Inl getRandomPipe_total by blast

theorem getRandomPipe_errors_witness:
  "getRandomPipe (demo_sizes\<lparr>base_h := 400\<rparr>) 0 0 = Inl ValueError
   \<and> (0 \<le> (0::real) \<and> base_h demo_sizes \<le> 305 \<and> (\<exists>u l. getRandomPipe demo_sizes 0 0 = Inr (u, l)))"
proof -
  have "py_int (of_int SCREENHEIGHT - of_int (base_h (demo_sizes\<lparr>base_h := 400\<rparr>))
                - 6 / 5 * (of_int SCREENHEIGHT / 3 - 0)) \<le> 0"
    by (simp add: demo_sizes_def game_consts py_int_def)
  moreover have "0 \<le> (0::real) \<and> base_h demo_sizes \<le> 305"
    by (simp add: demo_sizes_def)
  ultimately show ?thesis
    using getRandomPipe_errors [of "demo_sizes\<lparr>base_h := 400\<rparr>" 0 0 ValueError]
      getRandomPipe_errors [of demo_sizes 0 0]
    by blast
qed

text \<open>
  C13: A frame of \<open>mainGame\<close> from a state of the round invariant fails only with the
  \<open>TypeError\<close> of \<open>isCollide\<close>, with \<open>IndexError\<close> when the pipe lists have run empty,
  or with the \<open>ValueError\<close> of \<open>getRandomPipe\<close> when the base image is at least 306
  pixels tall.
\<close>

theorem mainGame_frame_errors:
  assumes "dict_inv sz s" and "mainGame_frame sz seed s es = Inl e"
  shows "e = TypeError \<or> e = IndexError \<and> upperPipes s = [] \<or> e = ValueError \<and> 306 \<le> base_h sz"
proof -
  have g: "0 \<le> gap s" using assms(1) by (simp add: dict_inv_def gap_ok_def)
  have "e = ValueError \<and> 306 \<le> base_h sz" if r: "getRandomPipe sz (gap s) seed = Inl e"
  proof -
    have "e = ValueError" using r getRandomPipe_Inl by blast
    moreover have "\<not> base_h sz \<le> 305" using r getRandomPipe_total [OF g, of sz seed] by auto
    ultimately show ?thesis by simp
  qed
  then show ?thesis using mainGame_frame_Inl [OF assms] by blast
qed

theorem mainGame_frame_errors_witness:
  "dict_inv demo_sizes demo_float_state
   \<and> mainGame_frame demo_sizes 0 demo_float_state [] = Inl TypeError
   \<and> (TypeError = TypeError \<or> TypeError = IndexError \<and> upperPipes demo_float_state = []
      \<or> TypeError = ValueError \<and> 306 \<le> base_h demo_sizes)"
proof -
  have x: "playerx demo_float_state = 115"
    by (simp add: demo_float_state_def demo_state_fields)
  have f: "mainGame_frame demo_sizes 0 demo_float_state [] = Inl TypeError"
    by (simp add: mainGame_frame_def isCollide_def x)
       (simp add: demo_float_state_def player_init_def demo_sizes_def game_consts)
  show ?thesis using demo_float_state_inv f mainGame_frame_errors [OF demo_float_state_inv f] by blast
qed

text \<open>
  C14: Once \<open>playery\<close> is a float, a player inside the screen bounds that meets an upper
  pipe makes \<open>isCollide\<close> raise \<open>TypeError\<close> (from \<open>range(playery)\<close>) instead of
  reporting the crash.
\<close>

theorem isCollide_float_TypeError:
  assumes "\<not> is_py_int y" and "0 \<le> num_val y" and "num_val y \<le> of_int SCREENHEIGHT - 130"
    and "list_ex (\<lambda>p. num_val y < of_int (pipe_h sz) + py p
                      \<and> \<bar>of_int x - px p\<bar> < of_int (pipe_w sz)) us"
  shows "isCollide sz x y us ls = Inl TypeError"
  using assms by (simp add: isCollide_def Let_def)

theorem isCollide_float_TypeError_witness:
  "\<not> is_py_int (PFloat (401 / 2)) \<and> 0 \<le> num_val (PFloat (401 / 2))
   \<and> num_val (PFloat (401 / 2)) \<le> of_int SCREENHEIGHT - 130
   \<and> list_ex (\<lambda>p. num_val (PFloat (401 / 2)) < of_int (pipe_h demo_sizes) + py p
                  \<and> \<bar>of_int 115 - px p\<bar> < of_int (pipe_w demo_sizes)) [\<lparr>px = 115, py = -100\<rparr>]
   \<and> isCollide demo_sizes 115 (PFloat (401 / 2)) [\<lparr>px = 115, py = -100\<rparr>] [] = Inl TypeError"
proof -
  have h: "\<not> is_py_int (PFloat (401 / 2)) \<and> 0 \<le> num_val (PFloat (401 / 2))
   \<and> num_val (PFloat (401 / 2)) \<le> of_int SCREENHEIGHT - 130
   \<and> list_ex (\<lambda>p. num_val (PFloat (401 / 2)) < of_int (pipe_h demo_sizes) + py p
                  \<and> \<bar>of_int 115 - px p\<bar> < of_int (pipe_w demo_sizes)) [\<lparr>px = 115, py = -100\<rparr>]"
    by (simp add: demo_sizes_def game_consts)
  then show ?thesis using isCollide_float_TypeError [of "PFloat (401 / 2)"] by blast
qed

text \<open>
  C15: After the fall, \<open>playery\<close> is a Python int exactly when it was one and the move was
  not clamped at the ground line: the clamp \<open>GROUNDY - playery - playerHeight\<close> is a
  float, and \<open>min\<close> picks it only when it is strictly smaller than the velocity.
\<close>

theorem player_fall_type:
  "is_py_int (playery (player_fall sz p)) \<longleftrightarrow>
     is_py_int (playery p)
     \<and> of_int (playerVelY (player_fall sz p)) \<le> GROUNDY - num_val (playery p) - of_int (player_h sz)"
  by (auto simp: player_fall_def Let_def py_min_def game_consts)

text \<open>
  C16: In the frame of an accepted flap the velocity is \<open>playerFlapAccv = -10\<close> whatever it
  was, because gravity is skipped in that frame; a flap at or above the top of the screen is
  ignored and gravity applies as usual.
\<close>

theorem flap_frame_velocity:
  "playerVelY (player_fall sz (player_flap p)) =
     (if flap_accepted p then playerFlapAccv
      else if playerVelY p < playerMaxVelY \<and> \<not> playerFlapped p then playerVelY p + playerAccY
      else playerVelY p)"
  by (simp add: game_consts)

text \<open>
  C17: The fall never takes the player's top below \<open>GROUNDY - playerHeight\<close>, and when the
  clamp is not reached it moves the player by exactly its new velocity.
\<close>

theorem player_fall_clamp:
  "num_val (playery (player_fall sz p)) \<le> GROUNDY - of_int (player_h sz)
   \<and> (of_int (playerVelY (player_fall sz p)) \<le> GROUNDY - num_val (playery p) - of_int (player_h sz)
      \<longrightarrow> num_val (playery (player_fall sz p)) = num_val (playery p) + of_int (playerVelY (player_fall sz p)))"
  by (simp only: player_fall_fields(3)) (simp add: min_def)

theorem player_fall_clamp_witness:
  "num_val (playery (player_fall demo_sizes player_init)) \<le> GROUNDY - of_int (player_h demo_sizes)
   \<and> of_int (playerVelY (player_fall demo_sizes player_init))
       \<le> GROUNDY - num_val (playery player_init) - of_int (player_h demo_sizes)
   \<and> num_val (playery (player_fall demo_sizes player_init))
       = num_val (playery player_init) + of_int (playerVelY (player_fall demo_sizes player_init))"
proof -
  have "of_int (playerVelY (player_fall demo_sizes player_init))
       \<le> GROUNDY - num_val (playery player_init) - of_int (player_h demo_sizes)"
    by (simp add: player_init_def demo_sizes_def game_consts py_int_def)
  then show ?thesis using player_fall_clamp [of demo_sizes player_init] by blast
qed

text \<open>
  C18: The ground test of \<open>isCollide\<close> looks at the player's top: a player 28 to 408
  pixels tall that has reached the ground clamp \<open>GROUNDY - playerHeight\<close> with a
  non-negative velocity is not detected by it. While no pipe is within \<open>pipe_width\<close> of it
  horizontally, \<open>isCollide\<close> reports no crash and the fall leaves it where it is, so it
  rests on the ground until a pipe reaches it.
\<close>

theorem player_rests_on_ground:
  assumes "28 \<le> player_h sz" and "player_h sz \<le> 408" and "0 \<le> playerVelY p"
    and "playery p = PFloat (GROUNDY - of_int (player_h sz))"
    and "list_all (\<lambda>q. \<not> \<bar>of_int x - px q\<bar> < of_int (pipe_w sz)) us"
    and "list_all (\<lambda>q. \<not> \<bar>of_int x - px q\<bar> < of_int (pipe_w sz)) ls"
  shows "isCollide sz x (playery p) us ls = Inr False \<and> playery (player_fall sz p) = playery p"
proof -
  have c: "isCollide sz x (playery p) us ls = Inr False"
    using assms(1,2,4-6) by (simp add: isCollide_def Let_def game_consts list_ex_iff list_all_iff)
  have "playery (player_fall sz p) = py_add (playery p) (py_min (PInt (playerVelY (player_fall sz p)))
          (PFloat (GROUNDY - (GROUNDY - of_int (player_h sz)) - of_int (player_h sz))))"
    using assms(4) by (simp add: player_fall_def Let_def game_consts)
  also have "\<dots> = playery p"
    using assms(3,4) by (simp add: py_min_def)
  finally show ?thesis using c by simp
qed

theorem player_rests_on_ground_witness:
  "28 \<le> player_h (demo_sizes\<lparr>player_h := 30\<rparr>) \<and> player_h (demo_sizes\<lparr>player_h := 30\<rparr>) \<le> 408
   \<and> 0 \<le> playerVelY (player_init\<lparr>playerVelY := 0, playery := PFloat (GROUNDY - 30)\<rparr>)
   \<and> list_all (\<lambda>q. \<not> \<bar>of_int 115 - px q\<bar> < of_int (pipe_w (demo_sizes\<lparr>player_h := 30\<rparr>))) [\<lparr>px = 400, py = -100\<rparr>]
   \<and> list_all (\<lambda>q. \<not> \<bar>of_int 115 - px q\<bar> < of_int (pipe_w (demo_sizes\<lparr>player_h := 30\<rparr>))) [\<lparr>px = 400, py = 300\<rparr>]
   \<and> isCollide (demo_sizes\<lparr>player_h := 30\<rparr>) 115 (PFloat (GROUNDY - 30))
       [\<lparr>px = 400, py = -100\<rparr>] [\<lparr>px = 400, py = 300\<rparr>] = Inr False
   \<and> playery (player_fall (demo_sizes\<lparr>player_h := 30\<rparr>)
               (player_init\<lparr>playerVelY := 0, playery := PFloat (GROUNDY - 30)\<rparr>))
     = PFloat (GROUNDY - 30)"
  using player_rests_on_ground [of "demo_sizes\<lparr>player_h := 30\<rparr>"
      "player_init\<lparr>playerVelY := 0, playery := PFloat (GROUNDY - 30)\<rparr>" 115
      "[\<lparr>px = 400, py = -100\<rparr>]" "[\<lparr>px = 400, py = 300\<rparr>]"]
  by (simp add: demo_sizes_def)
text \<open>
  C19: The score window of \<open>mainGame\<close> (\<open>pipeMidPos <= playerMidPos < pipeMidPos + 4\<close>)
  is four pixels wide while the pipes move three pixels a frame, so a pipe scores in two
  consecutive frames exactly when the midpoint distance lies in \<open>[0, 1)\<close> in the first.
\<close>

theorem score_window_twice:
  "score_window sz x p \<and> score_window sz x (move_pipe p) \<longleftrightarrow>
     0 \<le> mid_distance sz x p \<and> mid_distance sz x p < 1"
  by (simp add: score_window_distance mid_distance_move) linarith

text \<open>C20: No pipe scores in three consecutive frames.\<close>

theorem score_window_never_thrice:
  "\<not> (score_window sz x p \<and> score_window sz x (move_pipe p)
      \<and> score_window sz x (move_pipe (move_pipe p)))"
  by (simp add: score_window_distance mid_distance_move)

text \<open>
  C21: Every pipe whose midpoint is not yet four pixels behind the player's midpoint scores
  after some number of moves: the window is wider than the step, so it cannot be skipped.
\<close>

theorem score_window_reached:
  assumes "mid_distance sz x p < 4"
  shows "\<exists>k. score_window sz x ((move_pipe ^^ k) p)"
proof (cases "0 \<le> mid_distance sz x p")
  case True
  then show ?thesis using assms by (intro exI [of _ 0]) (simp add: score_window_distance)
next
  case False
  define d where "d = mid_distance sz x p"
  define k where "k = nat \<lceil>- d / 3\<rceil>"
  have "- d / 3 \<le> of_nat k" "of_nat k < - d / 3 + 1"
    using False by (simp_all add: k_def d_def) linarith+
  then have "0 \<le> d + 3 * of_nat k" "d + 3 * of_nat k < 4" by linarith+
  then show ?thesis
    by (intro exI [of _ k]) (simp add: score_window_distance mid_distance_funpow d_def)
qed

theorem score_window_reached_witness:
  "mid_distance demo_sizes 115 \<lparr>px = 200, py = 0\<rparr> < 4
   \<and> (\<exists>k. score_window demo_sizes 115 ((move_pipe ^^ k) \<lparr>px = 200, py = 0\<rparr>))"
proof -
  have "mid_distance demo_sizes 115 \<lparr>px = 200, py = 0\<rparr> < 4"
    by (simp add: mid_distance_def demo_sizes_def)
  then show ?thesis using score_window_reached by blast
qed

text \<open>
  C22: The double count happens in the game: in any frame of a round whose invariant holds,
  a pipe whose midpoint distance to the player lies in \<open>[0, 1)\<close> scores in that frame,
  survives the spawn and the prune moved three pixels left, and lies in the score window
  again for the next frame, so one pipe scores twice.
\<close>

theorem mainGame_double_count:
  assumes "dict_inv sz s" and "0 \<le> player_w sz" and "0 \<le> pipe_w sz"
    and "u \<in> set (upperPipes s)" and "0 \<le> mid_distance sz (playerx s) u" and "mid_distance sz (playerx s) u < 1"
    and "mainGame_frame sz seed s es = Inr (Running s', cs)"
  shows "score_window sz (playerx s) u \<and> move_pipe u \<in> set (upperPipes s')
         \<and> score_window sz (playerx s') (move_pipe u)"
proof -
  have f: "playerx s' = playerx s"
    and sp: "spawn_prune sz (gap s) seed (map move_pipe (upperPipes s)) (map move_pipe (lowerPipes s))
             = Inr (upperPipes s', lowerPipes s')"
    using mainGame_frame_pipes [OF assms(1,7)] by simp_all
  have x: "playerx s = 115" using assms(1) by (simp add: dict_inv_def)
  have "\<not> px (move_pipe u) < - of_int (pipe_w sz)"
    using assms(2,3,5,6) x by (simp add: mid_distance_def)
  then have "move_pipe u \<in> set (upperPipes s')"
    using spawn_prune_keeps [OF sp] assms(4) by simp
  moreover have "score_window sz (playerx s) u \<and> score_window sz (playerx s) (move_pipe u)"
    using assms(5,6) by (simp add: score_window_distance mid_distance_move)
  ultimately show ?thesis using f by simp
qed

theorem mainGame_double_count_witness:
  "\<exists>s' cs. dict_inv demo_sizes demo_pass_state \<and> 0 \<le> player_w demo_sizes \<and> 0 \<le> pipe_w demo_sizes
     \<and> \<lparr>px = 106, py = -127\<rparr> \<in> set (upperPipes demo_pass_state)
     \<and> 0 \<le> mid_distance demo_sizes (playerx demo_pass_state) \<lparr>px = 106, py = -127\<rparr>
     \<and> mid_distance demo_sizes (playerx demo_pass_state) \<lparr>px = 106, py = -127\<rparr> < 1
     \<and> mainGame_frame demo_sizes 0 demo_pass_state [] = Inr (Running s', cs)
     \<and> score_window demo_sizes (playerx demo_pass_state) \<lparr>px = 106, py = -127\<rparr>
     \<and> move_pipe \<lparr>px = 106, py = -127\<rparr> \<in> set (upperPipes s')
     \<and> score_window demo_sizes (playerx s') (move_pipe \<lparr>px = 106, py = -127\<rparr>)"
proof -
  have i: "dict_inv demo_sizes demo_pass_state"
  proof -
    have "dict_inv demo_sizes demo_state"
      using dict_reachable_inv [OF demo_state_reachable] by (simp add: program_inv_def)
    then show ?thesis
      by (simp add: dict_inv_def demo_pass_state_def vel_bounded_def player_init_def
                    openings_ok_def pipe_opening_def demo_sizes_def game_consts)
  qed
  have h: "0 \<le> player_w demo_sizes \<and> 0 \<le> pipe_w demo_sizes
     \<and> \<lparr>px = 106, py = -127\<rparr> \<in> set (upperPipes demo_pass_state)
     \<and> 0 \<le> mid_distance demo_sizes (playerx demo_pass_state) \<lparr>px = 106, py = -127\<rparr>
     \<and> mid_distance demo_sizes (playerx demo_pass_state) \<lparr>px = 106, py = -127\<rparr> < 1"
    by (simp add: demo_pass_state_def demo_state_fields demo_sizes_def mid_distance_def)
  obtain s' where f: "mainGame_frame demo_sizes 0 demo_pass_state [] = Inr (Running s', [Point])"
    by (simp add: demo_frame_eval)
  show ?thesis using i h f mainGame_double_count [OF i _ _ _ _ _ f] by blast
qed

text \<open>
  C23: With a background at least as wide as the screen, in every reachable round the two
  background copies together cover every column of the screen.
\<close>

theorem dict_background_covers:
  assumes "dict_reachable sz (InGame s)" and "SCREENWIDTH \<le> background_w sz"
    and "0 \<le> c" and "c < SCREENWIDTH"
  shows "fst (bg s) \<le> c \<and> c < fst (bg s) + background_w sz
         \<or> snd (bg s) \<le> c \<and> c < snd (bg s) + background_w sz"
proof -
  have "0 < background_w sz" using assms(2) by (simp add: SCREENWIDTH_def)
  then have "bg_inv sz (bg s)" using dict_reachable_bg [OF assms(1)] by simp
  then show ?thesis using assms(2-4) unfolding bg_inv_def Let_def min_def abs_if
    by (auto split: if_splits)
qed

theorem dict_background_covers_witness:
  "dict_reachable demo_sizes (InGame demo_state) \<and> SCREENWIDTH \<le> background_w demo_sizes
   \<and> 0 \<le> (0::int) \<and> 0 < SCREENWIDTH
   \<and> (fst (bg demo_state) \<le> 0 \<and> 0 < fst (bg demo_state) + background_w demo_sizes
      \<or> snd (bg demo_state) \<le> 0 \<and> 0 < snd (bg demo_state) + background_w demo_sizes)"
proof -
  have h: "SCREENWIDTH \<le> background_w demo_sizes \<and> 0 \<le> (0::int) \<and> 0 < SCREENWIDTH"
    by (simp add: demo_sizes_def game_consts)
  then show ?thesis
    using demo_state_reachable dict_background_covers [OF demo_state_reachable, of 0] by blast
qed

text \<open>
  C24: A running frame of \<open>mainGame\<close> adds to the score exactly the number of point
  sounds it plays.
\<close>

theorem mainGame_score_points:
  assumes "mainGame_frame sz seed s es = Inr (Running s', cs)"
  shows "score s' = score s + count_list cs Point"
  using assms
  by (auto simp: mainGame_frame_def Let_def split: option.splits sum.splits bool.splits prod.splits)

theorem mainGame_score_points_witness:
  "\<exists>s' cs. mainGame_frame demo_sizes 0 demo_pass_state [] = Inr (Running s', cs)
     \<and> cs = [Point] \<and> score s' = score demo_pass_state + count_list cs Point"
proof -
  obtain s' where f: "mainGame_frame demo_sizes 0 demo_pass_state [] = Inr (Running s', [Point])"
    by (simp add: demo_frame_eval)
  show ?thesis using f mainGame_score_points [OF f] by blast
qed

section \<open>The score display of the dictionary game\<close>

text \<open>
  C25: With the ten digit images loaded, the score display never raises and draws the
  digits of the score in order as one row centred on the screen: it starts at
  \<open>(SCREENWIDTH - width) / 2\<close> and ends at \<open>(SCREENWIDTH + width) / 2\<close>.
\<close>

theorem score_display_centered:
  assumes "length numbers = 10"
  shows "\<exists>ds bs. myDigits n = Inr ds \<and> score_display numbers n = Inr bs \<and> map fst bs = ds
           \<and> foldl (\<lambda>a d. 10 * a + d) 0 (map fst bs) = int n
           \<and> fst (snd (hd bs)) = (of_int SCREENWIDTH - of_int (digits_total numbers ds)) / 2
           \<and> fst (snd (last bs)) + of_int (numbers ! nat (fst (last bs)))
               = (of_int SCREENWIDTH + of_int (digits_total numbers ds)) / 2"
proof -
  obtain ds where m: "myDigits n = Inr ds" and b: "list_all (\<lambda>d. 0 \<le> d \<and> d < 10) ds"
    and v: "foldl (\<lambda>a d. 10 * a + d) 0 ds = int n" and ne: "ds \<noteq> []"
    using myDigits_ok by blast
  have i: "digits_in numbers ds" using digits_in_ten [OF assms b] .
  from ne obtain bs where "blit_loop numbers ((of_int SCREENWIDTH - of_int (digits_total numbers ds)) / 2) ds = Inr bs"
    "map fst bs = ds" "fst (snd (hd bs)) = (of_int SCREENWIDTH - of_int (digits_total numbers ds)) / 2"
    "fst (snd (last bs)) + of_int (numbers ! nat (fst (last bs)))
       = (of_int SCREENWIDTH - of_int (digits_total numbers ds)) / 2 + of_int (digits_total numbers ds)"
    using blit_loop_ok [OF i] by blast
  then show ?thesis using m v width_loop_ok [OF i, of 0]
    by (intro exI [of _ ds] exI [of _ bs]) (simp add: score_display_def field_simps)
qed

theorem score_display_centered_witness:
  "length demo_numbers = 10
   \<and> score_display demo_numbers 12 = Inr [(1, 269, 6132 / 100), (2, 285, 6132 / 100)]
   \<and> (\<exists>ds bs. myDigits 12 = Inr ds \<and> score_display demo_numbers 12 = Inr bs \<and> map fst bs = ds
       \<and> foldl (\<lambda>a d. 10 * a + d) 0 (map fst bs) = int 12
       \<and> fst (snd (hd bs)) = (of_int SCREENWIDTH - of_int (digits_total demo_numbers ds)) / 2
       \<and> fst (snd (last bs)) + of_int (demo_numbers ! nat (fst (last bs)))
           = (of_int SCREENWIDTH + of_int (digits_total demo_numbers ds)) / 2)"
proof -
  have l: "length demo_numbers = 10" by (simp add: demo_numbers_def)
  have "score_display demo_numbers 12 = Inr [(1, 269, 6132 / 100), (2, 285, 6132 / 100)]"
    by (simp add: score_display_def myDigits_def demo_numbers_def digit_char_def py_int_char_def
                  SCREENWIDTH_def SCREENHEIGHT_def)
  then show ?thesis using l score_display_centered [OF l, of 12] by blast
qed

section \<open>Refinements of the dictionary game\<close>

text \<open>
  C26: The two background copies refine a single tiling scrolling one pixel per frame:
  after \<open>k\<close> scrolls from the initial layout the visible offset is \<open>k mod width\<close>, and
  the layout invariant holds, whatever the width.
\<close>

theorem background_scroll_refines:
  assumes "0 < background_w sz"
  shows "bg_view sz ((scroll_background sz ^^ k) (initial_background sz)) = int k mod background_w sz
         \<and> bg_inv sz ((scroll_background sz ^^ k) (initial_background sz))"
proof (induction k)
  case 0
  then show ?case using assms bg_inv_initial [OF assms] by (simp add: bg_view_def initial_background_def min_def)
next
  case (Suc k)
  then show ?case
    using bg_view_scroll [OF assms] bg_inv_scroll [OF assms] by (simp add: mod_add_right_eq add.commute)
qed

theorem background_scroll_refines_witness:
  "0 < background_w demo_sizes
   \<and> bg_view demo_sizes ((scroll_background demo_sizes ^^ 601) (initial_background demo_sizes)) = 1"
proof -
  have w: "0 < background_w demo_sizes" by (simp add: demo_sizes_def)
  then show ?thesis using background_scroll_refines [OF w, of 601] by (simp add: demo_sizes_def)
qed

text \<open>
  C27: In the game itself, every running frame of a reachable round advances the visible
  background offset by exactly one pixel modulo the image width: no jump at the rewrap.
\<close>

theorem mainGame_frame_bg_view:
  assumes "dict_reachable sz (InGame s)" and "0 < background_w sz"
    and "mainGame_frame sz seed s es = Inr (Running s', cs)"
  shows "bg_view sz (bg s') = (bg_view sz (bg s) + 1) mod background_w sz"
proof -
  have "bg_inv sz (bg s)" using dict_reachable_bg [OF assms(1,2)] by simp
  then show ?thesis using mainGame_frame_bg [OF assms(3)] bg_view_scroll [OF assms(2)] by simp
qed

theorem mainGame_frame_bg_view_witness:
  "\<exists>s' cs. dict_reachable demo_sizes (InGame demo_state) \<and> 0 < background_w demo_sizes
     \<and> mainGame_frame demo_sizes 0 demo_state [] = Inr (Running s', cs)
     \<and> bg_view demo_sizes (bg s') = (bg_view demo_sizes (bg demo_state) + 1) mod background_w demo_sizes"
proof -
  have w: "0 < background_w demo_sizes" by (simp add: demo_sizes_def)
  obtain s' where f: "mainGame_frame demo_sizes 0 demo_state [] = Inr (Running s', [])"
    by (simp add: demo_frame_eval demo_dict_eval py_int_def)
  show ?thesis using demo_state_reachable w f mainGame_frame_bg_view [OF demo_state_reachable w f] by blast
qed

section \<open>Rounds without input\<close>

text \<open>
  C28: The loop of \<open>mainGame\<close> terminates when no key is pressed: for a player at most 27
  pixels tall, every reachable round left without input ends within 1230 frames, with the
  crash or with an error, whatever \<open>random.randrange\<close> draws. (A taller player can rest
  on the ground clamp undetected by the ground test, claim C18.)
\<close>

theorem idle_round_ends:
  assumes "dict_reachable sz (InGame s)" and "player_h sz \<le> 27"
  shows "idle_frames sz seeds 1230 s = Inr RoundOver \<or> (\<exists>e. idle_frames sz seeds 1230 s = Inl e)"
proof (cases "of_int SCREENHEIGHT - 130 < num_val (playery (the_player s)) \<or> num_val (playery (the_player s)) < 0")
  case True
  then show ?thesis using idle_frame_crash [of s sz seeds 1229] by simp
next
  case False
  have i: "dict_inv sz s" using dict_reachable_inv [OF assms(1)] by (simp add: program_inv_def)
  have nf: "\<not> playerFlapped (the_player s)" using dict_reachable_not_flapped [OF assms(1)] by simp
  have "idle_potential (the_player s) \<le> 981"
    using False i by (simp add: idle_potential_def dict_inv_def vel_bounded_def game_consts)
  then have "max 0 (idle_potential (the_player s)) + 4 / 5 < 4 / 5 * of_nat (1230::nat)" by simp
  then show ?thesis using idle_frames_end [OF i nf assms(2)] by blast
qed

theorem idle_round_ends_witness:
  "dict_reachable demo_sizes (InGame demo_state) \<and> player_h demo_sizes \<le> 27
   \<and> (idle_frames demo_sizes (\<lambda>_. 0) 1230 demo_state = Inr RoundOver
      \<or> (\<exists>e. idle_frames demo_sizes (\<lambda>_. 0) 1230 demo_state = Inl e))"
proof -
  have h: "player_h demo_sizes \<le> 27" by (simp add: demo_sizes_def)
  show ?thesis using demo_state_reachable h idle_round_ends [OF demo_state_reachable h] by blast
qed
section \<open>The dictionary game: counters, start and events\<close>

text \<open>
  C29: The difficulty counter has a closed form: after \<open>k\<close> frames \<open>gap\<close> is
  \<open>0.09 * min k 612\<close>, so it saturates at 55.08 after 612 frames and the opening of the
  pipes generated from then on is \<open>SCREENHEIGHT / 3 - 55.08\<close>.
\<close>

theorem gap_closed_form: "(next_gap ^^ k) 0 = 9 / 100 * of_nat (min k 612)"
proof (induction k)
  case 0
  then show ?case by simp
next
  case (Suc k)
  show ?case
  proof (cases "k < 612")
    case True
    then have "(9::real) / 100 * of_nat k < 55" by simp
    then show ?thesis using Suc True by (simp add: next_gap_def min_def algebra_simps)
  next
    case False
    then have "min k 612 = 612" by simp
    then have g: "(next_gap ^^ k) 0 = 1377 / 25" using Suc by simp
    have "(next_gap ^^ Suc k) 0 = next_gap ((next_gap ^^ k) 0)" by simp
    also have "\<dots> = next_gap (1377 / 25)" by (simp only: g)
    also have "\<dots> = 9 / 100 * of_nat (min (Suc k) 612)" using False by (simp add: next_gap_def min_def)
    finally show ?thesis .
  qed
qed

text \<open>
  C30: A round starts with score 0, the player at column 115 and height 289
  (\<open>int(SCREENWIDTH / 2)\<close>, computed from the width), velocity \<open>-20\<close>, two pipe pairs at
  x = 778 and 1067, difficulty 0 and the background at its initial layout.
\<close>

theorem mainGame_init_state:
  assumes "mainGame_init sz s1 s2 = Inr s"
  shows "score s = 0 \<and> playerx s = 115
         \<and> the_player s = \<lparr>playery = PInt 289, playerVelY = -20, playerFlapped = False\<rparr>
         \<and> map px (upperPipes s) = [778, 1067] \<and> map px (lowerPipes s) = [778, 1067]
         \<and> gap s = 0 \<and> bg s = (0, background_w sz)"
  using assms
  by (auto simp: mainGame_init_def player_init_def initial_background_def game_consts py_int_def
           split: sum.splits)

theorem mainGame_init_state_witness:
  "mainGame_init demo_sizes 0 0 = Inr demo_state
   \<and> score demo_state = 0 \<and> playerx demo_state = 115
   \<and> the_player demo_state = \<lparr>playery = PInt 289, playerVelY = -20, playerFlapped = False\<rparr>
   \<and> map px (upperPipes demo_state) = [778, 1067] \<and> map px (lowerPipes demo_state) = [778, 1067]
   \<and> gap demo_state = 0 \<and> bg demo_state = (0, background_w demo_sizes)"
  using demo_state_init mainGame_init_state [OF demo_state_init] by blast

text \<open>
  C31: \<open>welcomeScreen\<close>'s event loop is a search for the first decisive event: it
  leaves the program if that is \<open>QUIT\<close> or Escape, starts a round if it is a flap key,
  and keeps waiting when there is none.
\<close>

theorem welcome_events_first:
  "welcome_events es =
     (case find (\<lambda>e. is_exit_event e \<or> is_flap_event e) es of
        None \<Rightarrow> Wait
      | Some e \<Rightarrow> if is_exit_event e then Leave else Start)"
  by (induction es rule: welcome_events.induct) auto

text \<open>
  C32: The event loop of a \<open>mainGame\<close> frame exits on any \<open>QUIT\<close> or Escape, wherever
  it is in the batch; otherwise every flap key of the batch is accepted (one wing sound each)
  exactly when the player is below the top of the screen, and then the player is flapped.
\<close>

theorem dict_events_closed_form:
  "dict_events p es =
     (if list_ex is_exit_event es then None
      else if flap_accepted p \<and> 0 < length (filter is_flap_event es)
      then Some (player_flap p, length (filter is_flap_event es))
      else Some (p, 0))"
proof (induction es arbitrary: p)
  case Nil
  then show ?case by simp
next
  case (Cons e es)
  show ?case
  proof (cases e)
    case (KEYDOWN k)
    show ?thesis
    proof (cases "flap_key k \<and> flap_accepted p")
      case True
      then have "k \<noteq> K_ESCAPE" by (auto simp: flap_key_def)
      then show ?thesis using True KEYDOWN Cons.IH [of "player_flap p"] by auto
    next
      case False
      then show ?thesis using KEYDOWN Cons.IH [of p] by (auto simp: flap_key_def)
    qed
  qed (simp_all add: Cons.IH)
qed

text \<open>
  C33: Every pipe at a positive integer x passes the spawn band \<open>0 < x < 3.8\<close> in
  exactly one frame while it moves 3 pixels a frame: it can neither be skipped nor spawn
  twice.
\<close>

theorem spawn_band_once:
  assumes "px p = of_int x0" and "0 < x0"
  shows "\<exists>!k. 0 < px ((move_pipe ^^ k) p) \<and> px ((move_pipe ^^ k) p) < 38 / 10"
proof -
  have band: "0 < px ((move_pipe ^^ k) p) \<and> px ((move_pipe ^^ k) p) < 38 / 10
              \<longleftrightarrow> 0 < x0 - 3 * int k \<and> x0 - 3 * int k \<le> 3" for k
  proof -
    have e: "px ((move_pipe ^^ k) p) = of_int (x0 - 3 * int k)"
      using assms(1) by (simp add: move_pipe_funpow_px)
    have lt: "(of_int i < (38 / 10 :: real)) \<longleftrightarrow> i \<le> 3" for i :: int
    proof
      assume "of_int i < (38 / 10 :: real)"
      then have "of_int i < (of_int 4 :: real)" by simp
      then show "i \<le> 3" by linarith
    qed simp
    show ?thesis unfolding e lt of_int_0_less_iff ..
  qed
  have d: "int (nat ((x0 - 1) div 3)) = (x0 - 1) div 3" using assms(2) by simp
  show ?thesis
  proof (rule ex1I)
    show "0 < px ((move_pipe ^^ nat ((x0 - 1) div 3)) p) \<and> px ((move_pipe ^^ nat ((x0 - 1) div 3)) p) < 38 / 10"
      unfolding band d using assms(2) by presburger
  next
    fix k assume "0 < px ((move_pipe ^^ k) p) \<and> px ((move_pipe ^^ k) p) < 38 / 10"
    then have "0 < x0 - 3 * int k \<and> x0 - 3 * int k \<le> 3" unfolding band .
    then have "int k = (x0 - 1) div 3" by presburger
    then show "k = nat ((x0 - 1) div 3)" by (simp add: \<open>int k = (x0 - 1) div 3\<close> [symmetric])
  qed
qed

theorem spawn_band_once_witness:
  "px \<lparr>px = 588, py = 0\<rparr> = of_int 588 \<and> 0 < (588::int)
   \<and> (\<exists>!k. 0 < px ((move_pipe ^^ k) \<lparr>px = 588, py = 0\<rparr>) \<and> px ((move_pipe ^^ k) \<lparr>px = 588, py = 0\<rparr>) < 38 / 10)"
  using spawn_band_once [of "\<lparr>px = 588, py = 0\<rparr>" 588] by simp

end
